theory Spec2Isabelle
  imports Complex_Main "HOL-Library.Sublist"
begin

section \<open>The OpenRouter client of src/examples/example_openrouter.ts\<close>

text \<open>
  The file holds the example script (not modelled) and the class \<open>OpenRouterClient\<close> with the
  helper \<open>validateZodSchema\<close> and the method \<open>createChatCompletion\<close>. The method is modelled
  with explicit state: the cache, the remote calls made so far and the log events emitted so
  far. A thrown \<open>Error\<close> is the left injection of a sum. The collaborators outside the
  repository (\<open>JSON.parse\<close>, \<open>JSON.stringify\<close> of a schema, the parse method of a zod schema and
  the provider behind \<open>client.chat.completions.create\<close>) are the fields of a record of
  parameters.
\<close>

subsection \<open>JavaScript values\<close>

text \<open>
  A JavaScript string is a list of code units; each \<^typ>\<open>char\<close> stands for one code unit
  below 256. The class \<open>\s\<close> of regular expressions and the characters removed by
  \<open>String.prototype.trim\<close> are, below 256: tab, line feed, vertical tab, form feed, carriage
  return, space and the no-break space.
\<close>

definition isWhiteSpace :: "char \<Rightarrow> bool" where
  "isWhiteSpace c =
     (c \<in> set [CHR 0x09, CHR 0x0A, CHR 0x0B, CHR 0x0C, CHR 0x0D, CHR 0x20, CHR 0xA0])"

text \<open>Values produced by \<open>JSON.parse\<close>, and the truthiness test of \<open>if (x)\<close> and \<open>!x\<close>.\<close>

datatype json =
    JNull
  | JBool bool
  | JNum real
  | JStr string
  | JArr "json list"
  | JObj "(string \<times> json) list"

fun truthy :: "json \<Rightarrow> bool" where
  "truthy JNull = False"
| "truthy (JBool b) = b"
| "truthy (JNum n) = (n \<noteq> 0)"
| "truthy (JStr s) = (s \<noteq> [])"
| "truthy (JArr xs) = True"
| "truthy (JObj kvs) = True"

datatype js_error =
    Error string
  | SyntaxError string
  | ZodError string
  | APIError string

fun error_message :: "js_error \<Rightarrow> string" where
  "error_message (Error m) = m"
| "error_message (SyntaxError m) = m"
| "error_message (ZodError m) = m"
| "error_message (APIError m) = m"

text \<open>\<open>try { body } catch (e) { handler }\<close> over results.\<close>

definition try_catch :: "'thrown + 'r \<Rightarrow> ('thrown \<Rightarrow> 'rethrown + 'r) \<Rightarrow> 'rethrown + 'r" where
  "try_catch body handler = (case body of Inl e \<Rightarrow> handler e | Inr v \<Rightarrow> Inr v)"

subsection \<open>validateZodSchema (lines 74-81)\<close>

text \<open>
  \<open>schema.parse(data)\<close> is a method of the zod library: it returns the parsed value or throws.
  It is the parameter \<open>parse\<close>. The bare \<open>catch\<close> swallows whatever was thrown.
\<close>

definition validateZodSchema ::
  "('s \<Rightarrow> json \<Rightarrow> js_error + json) \<Rightarrow> 's \<Rightarrow> json \<Rightarrow> js_error + bool" where
  "validateZodSchema parse schema data =
     try_catch
       (case parse schema data of Inl e \<Rightarrow> Inl e | Inr parsed \<Rightarrow> Inr True)
       (\<lambda>e. Inr False)"

subsection \<open>Cleaning the extracted content (lines 330-333)\<close>

text \<open>
  \<open>.replace(/^\s*```(?:json)?\n?/g, "")\<close>: without the \<open>m\<close> flag \<open>^\<close> is the start of the
  text, so there is at most one match. The greedy \<open>\s*\<close> takes every leading white space
  character; the three backquotes must follow, then \<open>json\<close> and a line feed are taken when
  they are there.
\<close>

definition stripOpeningFence :: "string \<Rightarrow> string" where
  "stripOpeningFence s =
     (let s1 = dropWhile isWhiteSpace s in
      if prefix ''```'' s1 then
        (let s2 = drop 3 s1;
             s3 = (if prefix ''json'' s2 then drop 4 s2 else s2)
         in if prefix [CHR 0x0A] s3 then drop 1 s3 else s3)
      else s)"

text \<open>
  \<open>.replace(/\n?```\s*$/g, "")\<close>: \<open>$\<close> is the end of the text, so a match runs to the end
  and there is at most one. \<open>matchesClosingFence t\<close> says that the pattern matches the whole
  of the remaining text \<open>t\<close>; the search tries every position from the left and removes the
  text from the first position that matches.
\<close>

definition matchesClosingFence :: "string \<Rightarrow> bool" where
  "matchesClosingFence t =
     (let t1 = (if prefix [CHR 0x0A] t then drop 1 t else t)
      in prefix ''```'' t1 \<and> list_all isWhiteSpace (drop 3 t1))"

fun stripClosingFence :: "string \<Rightarrow> string" where
  "stripClosingFence [] = []"
| "stripClosingFence (c # cs) =
     (if matchesClosingFence (c # cs) then [] else c # stripClosingFence cs)"

definition trim :: "string \<Rightarrow> string" where
  "trim s = rev (dropWhile isWhiteSpace (rev (dropWhile isWhiteSpace s)))"

definition cleanedContent :: "string \<Rightarrow> string" where
  "cleanedContent extractedData = trim (stripClosingFence (stripOpeningFence extractedData))"

text \<open>A text contains a fence when three backquotes in a row occur in it.\<close>

fun containsFence :: "string \<Rightarrow> bool" where
  "containsFence [] = False"
| "containsFence (c # cs) = (prefix ''```'' (c # cs) \<or> containsFence cs)"

text \<open>
  The cleaning step as the specification words it, for comparison: the leading marker is
  three backquotes, then white space, then an optional \<open>json\<close>, then an optional line feed
  (\<open>```\s*(json)?\n?\<close>); the trailing marker and the trimming are as in the code.
\<close>

definition stripOpeningFence_spec :: "string \<Rightarrow> string" where
  "stripOpeningFence_spec s =
     (if prefix ''```'' s then
        (let s1 = dropWhile isWhiteSpace (drop 3 s);
             s2 = (if prefix ''json'' s1 then drop 4 s1 else s1)
         in if prefix [CHR 0x0A] s2 then drop 1 s2 else s2)
      else s)"

definition cleanedContent_spec :: "string \<Rightarrow> string" where
  "cleanedContent_spec extractedData =
     trim (stripClosingFence (stripOpeningFence_spec extractedData))"

subsection \<open>Conversation turns and the wire format (lines 211-268)\<close>

datatype role = System | User | Assistant

text \<open>
  A content part of the caller: an object with a \<open>type\<close>, and the keys \<open>image_url\<close> (holding
  the url) and \<open>text\<close>, each of which may be missing.
\<close>

record content_part =
  part_type :: string
  image_url :: "string option"
  part_text :: "string option"

datatype message_content = Str string | Parts "content_part list"

record chat_message =
  role :: role
  content :: message_content

text \<open>
  The parts sent to the provider: \<open>{image_url: {url}, type: "image_url"}\<close> and
  \<open>{text, type: "text"}\<close>.
\<close>

datatype wire_part = ImagePart string | TextPart "string option"

fun wire_type :: "wire_part \<Rightarrow> string" where
  "wire_type (ImagePart url) = ''image_url''"
| "wire_type (TextPart t) = ''text''"

datatype wire_content = WStr string | WParts "wire_part list"

record wire_message =
  wire_role :: role
  wire_content :: wire_content

text \<open>The inner \<open>message.content.map\<close>: the test is \<open>"image_url" in content\<close>.\<close>

definition contentPart :: "content_part \<Rightarrow> wire_part" where
  "contentPart c =
     (case image_url c of Some url \<Rightarrow> ImagePart url | None \<Rightarrow> TextPart (part_text c))"

definition contentParts :: "content_part list \<Rightarrow> wire_part list" where
  "contentParts cs = map contentPart cs"

definition formattedMessage :: "chat_message \<Rightarrow> wire_message" where
  "formattedMessage message =
     (case content message of
        Parts cs \<Rightarrow>
          (if role message = System then
             \<lparr>wire_role = System,
              wire_content = WParts (filter (\<lambda>c. wire_type c = ''text'') (contentParts cs))\<rparr>
           else if role message = User then
             \<lparr>wire_role = User, wire_content = WParts (contentParts cs)\<rparr>
           else
             \<lparr>wire_role = Assistant,
              wire_content = WParts (filter (\<lambda>c. wire_type c = ''text'') (contentParts cs))\<rparr>)
      | Str s \<Rightarrow> \<lparr>wire_role = User, wire_content = WStr s\<rparr>)"

definition formattedMessages :: "chat_message list \<Rightarrow> wire_message list" where
  "formattedMessages ms = map formattedMessage ms"

subsection \<open>Requests, responses and the collaborators\<close>

record tool =
  tool_name :: string
  tool_description :: string
  tool_parameters :: json

text \<open>The output-schema descriptor \<open>{name, schema}\<close>; \<open>'s\<close> is the type of zod schemas.\<close>

record 's response_model =
  name :: string
  schema :: 's

text \<open>
  The \<open>options\<close> of a call. The sampling parameters and the image are carried, never
  computed with.
\<close>

record 's options =
  messages :: "chat_message list"
  temperature :: "real option"
  top_p :: "real option"
  frequency_penalty :: "real option"
  presence_penalty :: "real option"
  image_opt :: "string option"
  response_model :: "'s response_model option"
  tools :: "tool list option"
  requestId :: string

text \<open>The object \<open>cacheOptions\<close> of lines 141-150.\<close>

record 's cache_key =
  key_model :: string
  key_messages :: "chat_message list"
  key_temperature :: "real option"
  key_top_p :: "real option"
  key_frequency_penalty :: "real option"
  key_presence_penalty :: "real option"
  key_image :: "string option"
  key_response_model :: "'s response_model option"

text \<open>
  \<open>zodResponseFormat(schema, name)\<close> of the OpenAI helpers: the directive is kept as the two
  arguments it is built from.
\<close>

datatype 's response_format = ZodResponseFormat 's string

record wire_tool =
  tool_function :: tool
  tool_type :: string

text \<open>\<open>openRouterOptions\<close>: the options without \<open>image\<close> and \<open>requestId\<close>, and the model.\<close>

record 's openRouterOptions =
  oro_messages :: "chat_message list"
  oro_temperature :: "real option"
  oro_top_p :: "real option"
  oro_frequency_penalty :: "real option"
  oro_presence_penalty :: "real option"
  oro_response_model :: "'s response_model option"
  oro_tools :: "tool list option"
  oro_model :: string

text \<open>
  The request body of lines 270-284: the spread of \<open>openRouterOptions\<close>, with \<open>model\<close>,
  \<open>messages\<close> and \<open>tools\<close> overwritten and \<open>response_format\<close> and \<open>stream\<close> added.
\<close>

record 's body =
  body_model :: string
  body_messages :: "wire_message list"
  body_temperature :: "real option"
  body_top_p :: "real option"
  body_frequency_penalty :: "real option"
  body_presence_penalty :: "real option"
  body_response_model :: "'s response_model option"
  body_response_format :: "'s response_format option"
  body_stream :: bool
  body_tools :: "wire_tool list option"

text \<open>The provider's response, as far as the method reads it; \<open>response_id\<close> stands for the rest.\<close>

record completion_message =
  message_content :: "string option"

record choice =
  message :: "completion_message option"

record response =
  response_id :: string
  choices :: "choice list option"

text \<open>What the method returns: the raw response, or the parsed value when a schema was given.\<close>

datatype completion_result = Raw response | Parsed json

fun truthy_result :: "completion_result \<Rightarrow> bool" where
  "truthy_result (Raw r) = True"
| "truthy_result (Parsed v) = truthy v"

text \<open>
  A log event. An auxiliary value of type \<open>"object"\<close> is kept as the value that the code
  passes to \<open>JSON.stringify\<close>.
\<close>

datatype 's aux_value =
    StringAux string
  | OptionsAux "'s options"
  | OpenRouterOptionsAux "'s openRouterOptions"
  | ResponseAux response
  | ResultAux completion_result

record 's LogLine =
  category :: string
  log_message :: string
  level :: nat
  auxiliary :: "(string \<times> 's aux_value) list"

text \<open>
  Modelled from the spec: the state of the class \<open>LLMCache\<close> of \<open>lib/cache/LLMCache\<close>, which
  is not among the sources. The specification describes the cache as a map from the key
  to a previously obtained result; the key is the object that the caller passes.
\<close>

type_synonym 's LLMCache = "'s cache_key \<Rightarrow> completion_result option"

text \<open>
  Modelled from the spec: \<open>LLMCache.get(key, requestId)\<close>, which is not among the sources.
  It returns the stored result or nothing. The request identifier is a secondary handle
  only: requests with the same key hit the same entry whatever their identifiers are.
\<close>

definition LLMCache_get ::
  "'s LLMCache \<Rightarrow> 's cache_key \<Rightarrow> string \<Rightarrow> completion_result option" where
  "LLMCache_get c key rid = c key"

text \<open>
  Modelled from the spec: \<open>LLMCache.set(key, value, requestId)\<close>, which is not among the
  sources. It replaces the entry of the key: the last write wins.
\<close>

definition LLMCache_set ::
  "'s LLMCache \<Rightarrow> 's cache_key \<Rightarrow> completion_result \<Rightarrow> string \<Rightarrow> 's LLMCache" where
  "LLMCache_set c key v rid = c(key \<mapsto> v)"

text \<open>
  The collaborators outside the repository. \<open>create n body\<close> is the provider's answer to the
  call with this body when \<open>n\<close> calls have been made before; \<open>Inl\<close> is a thrown error.
\<close>

record 's env =
  JSON_parse :: "string \<Rightarrow> js_error + json"
  JSON_stringify :: "'s \<Rightarrow> string"
  zod_parse :: "'s \<Rightarrow> json \<Rightarrow> js_error + json"
  create :: "nat \<Rightarrow> 's body \<Rightarrow> js_error + response"

text \<open>The fields of the client that the method reads. A client with caching has a cache.\<close>

record client =
  modelName :: string
  enableCaching :: bool

text \<open>What a call can change besides the \<open>options\<close> object it was given.\<close>

record 's state =
  cache :: "'s LLMCache"
  calls :: "'s body list"
  logs :: "'s LogLine list"

definition logger :: "'s LogLine \<Rightarrow> 's state \<Rightarrow> 's state" where
  "logger l st = st\<lparr>logs := logs st @ [l]\<rparr>"

subsection \<open>createChatCompletion (lines 115-385)\<close>

text \<open>
  \<open>cacheOptions\<close> is built once, at the top of the call, and holds the array
  \<open>options.messages\<close> itself, not a copy: when the array is extended later in the call, the
  key passed to \<open>cache.set\<close> has the extended conversation. So the key is computed from
  the options as they are when the cache is called.
\<close>

definition cacheOptions :: "client \<Rightarrow> 's options \<Rightarrow> 's cache_key" where
  "cacheOptions cl options =
     \<lparr>key_model = modelName cl,
      key_messages = messages options,
      key_temperature = temperature options,
      key_top_p = top_p options,
      key_frequency_penalty = frequency_penalty options,
      key_presence_penalty = presence_penalty options,
      key_image = image_opt options,
      key_response_model = response_model options\<rparr>"

text \<open>Lines 152-157: the lookup, and the test \<open>if (cachedResponse)\<close> on what it returns.\<close>

definition cachedResponse :: "client \<Rightarrow> 's options \<Rightarrow> 's state \<Rightarrow> completion_result option" where
  "cachedResponse cl options st =
     (if enableCaching cl then
        (case LLMCache_get (cache st) (cacheOptions cl options) (requestId options) of
           Some v \<Rightarrow> if truthy_result v then Some v else None
         | None \<Rightarrow> None)
      else None)"

text \<open>Lines 347-349 and 380-382.\<close>

definition cacheStore :: "client \<Rightarrow> 's options \<Rightarrow> completion_result \<Rightarrow> 's state \<Rightarrow> 's state" where
  "cacheStore cl options v st =
     (if enableCaching cl then
        st\<lparr>cache := LLMCache_set (cache st) (cacheOptions cl options) v (requestId options)\<rparr>
      else st)"

text \<open>The system turn of lines 182-185.\<close>

definition schemaInstruction :: "'s env \<Rightarrow> 's response_model \<Rightarrow> chat_message" where
  "schemaInstruction env rm =
     \<lparr>role = System,
      content = Str (''Please format your response according to this schema:'' @ [CHR 0x0A]
                     @ JSON_stringify env (schema rm) @ [CHR 0x0A, CHR 0x0A]
                     @ ''Respond with only the JSON object, no additional text or formatting.'')\<rparr>"

text \<open>
  Lines 177-192: the options after the step (\<open>push\<close> extends the caller's array) and
  \<open>responseFormat\<close>.
\<close>

definition applyResponseModel ::
  "'s env \<Rightarrow> client \<Rightarrow> 's options \<Rightarrow> 's options \<times> 's response_format option" where
  "applyResponseModel env cl options =
     (case response_model options of
        None \<Rightarrow> (options, None)
      | Some rm \<Rightarrow>
          if prefix ''google/gemini'' (modelName cl) then
            (options\<lparr>messages := messages options @ [schemaInstruction env rm]\<rparr>, None)
          else (options, Some (ZodResponseFormat (schema rm) (name rm))))"

definition openRouterOptions :: "client \<Rightarrow> 's options \<Rightarrow> 's openRouterOptions" where
  "openRouterOptions cl options =
     \<lparr>oro_messages = messages options,
      oro_temperature = temperature options,
      oro_top_p = top_p options,
      oro_frequency_penalty = frequency_penalty options,
      oro_presence_penalty = presence_penalty options,
      oro_response_model = response_model options,
      oro_tools = tools options,
      oro_model = modelName cl\<rparr>"

definition wireTool :: "tool \<Rightarrow> wire_tool" where
  "wireTool t = \<lparr>tool_function = t, tool_type = ''function''\<rparr>"

definition body :: "client \<Rightarrow> 's options \<Rightarrow> 's response_format option \<Rightarrow> 's body" where
  "body cl options responseFormat =
     (let oro = openRouterOptions cl options in
      \<lparr>body_model = modelName cl,
       body_messages = formattedMessages (messages options),
       body_temperature = oro_temperature oro,
       body_top_p = oro_top_p oro,
       body_frequency_penalty = oro_frequency_penalty oro,
       body_presence_penalty = oro_presence_penalty oro,
       body_response_model = oro_response_model oro,
       body_response_format = responseFormat,
       body_stream = False,
       body_tools = map_option (map wireTool) (tools options)\<rparr>)"

text \<open>\<open>response?.choices?.[0]?.message\<close>.\<close>

definition firstMessage :: "response \<Rightarrow> completion_message option" where
  "firstMessage r =
     (case choices r of
        None \<Rightarrow> None
      | Some [] \<Rightarrow> None
      | Some (c # cs) \<Rightarrow> message c)"

text \<open>The five log events, in the order of the source.\<close>

definition log_creating :: "client \<Rightarrow> 's options \<Rightarrow> 's LogLine" where
  "log_creating cl options =
     \<lparr>category = ''openrouter'', log_message = ''creating chat completion'', level = 1,
      auxiliary = [(''options'', OptionsAux (options\<lparr>image_opt := None\<rparr>)),
                   (''modelName'', StringAux (modelName cl))]\<rparr>"

definition log_cache_hit :: "'s options \<Rightarrow> completion_result \<Rightarrow> 's LogLine" where
  "log_cache_hit options v =
     \<lparr>category = ''llm_cache'', log_message = ''LLM cache hit - returning cached response'',
      level = 1,
      auxiliary = [(''requestId'', StringAux (requestId options)),
                   (''cachedResponse'', ResultAux v)]\<rparr>"

definition log_options :: "client \<Rightarrow> 's options \<Rightarrow> 's LogLine" where
  "log_options cl options =
     \<lparr>category = ''openrouter'', log_message = ''creating chat completion'', level = 1,
      auxiliary = [(''openRouterOptions'', OpenRouterOptionsAux (openRouterOptions cl options))]\<rparr>"

definition log_response :: "'s options \<Rightarrow> response \<Rightarrow> 's LogLine" where
  "log_response options r =
     \<lparr>category = ''openrouter'', log_message = ''response'', level = 1,
      auxiliary = [(''response'', ResponseAux r),
                   (''requestId'', StringAux (requestId options))]\<rparr>"

definition log_failed_to_parse :: "js_error \<Rightarrow> string \<Rightarrow> 's LogLine" where
  "log_failed_to_parse e extractedData =
     \<lparr>category = ''openrouter'', log_message = ''Failed to parse response'', level = 0,
      auxiliary = [(''error'', StringAux (error_message e)),
                   (''content'', StringAux extractedData)]\<rparr>"

text \<open>
  One pass through the body of the method ends in a returned value, a thrown error, or a
  recursive call with \<open>retries - 1\<close> and the same \<open>options\<close> object.
\<close>

datatype step = Finished "js_error + completion_result" | Again

text \<open>
  How the \<open>try\<close> block of lines 328-351 ends: with a throw, which the \<open>catch\<close> of line 352
  receives; with \<open>return this.createChatCompletion(...)\<close>, whose promise is returned without
  \<open>await\<close>, so that a failure of the recursive call does not pass through the \<open>catch\<close>; or
  with the parsed value.
\<close>

datatype try_end = Thrown js_error | ReturnRecursive | ReturnParsed json

definition tryBlock :: "'s env \<Rightarrow> 's response_model \<Rightarrow> int \<Rightarrow> string \<Rightarrow> try_end" where
  "tryBlock env rm retries extractedData =
     (case JSON_parse env (cleanedContent extractedData) of
        Inl e \<Rightarrow> Thrown e
      | Inr parsedData \<Rightarrow>
          (case validateZodSchema (zod_parse env) (schema rm) parsedData of
             Inl e \<Rightarrow> Thrown e
           | Inr ok \<Rightarrow>
               if \<not> ok then
                 (if retries > 0 then ReturnRecursive
                  else Thrown (Error ''Response does not match the required schema''))
               else ReturnParsed parsedData))"

text \<open>Lines 304-384: what the method does with the response.\<close>

definition handleResponse ::
  "'s env \<Rightarrow> client \<Rightarrow> 's options \<Rightarrow> int \<Rightarrow> response \<Rightarrow> 's state \<Rightarrow> step \<times> 's state" where
  "handleResponse env cl options retries r st =
     (case firstMessage r of
        None \<Rightarrow>
          (if retries > 0 then (Again, st)
           else (Finished (Inl (Error ''Invalid or empty response from OpenRouter API'')), st))
      | Some m \<Rightarrow>
          (case response_model options of
             None \<Rightarrow> (Finished (Inr (Raw r)), cacheStore cl options (Raw r) st)
           | Some rm \<Rightarrow>
               (case message_content m of
                  None \<Rightarrow>
                    (if retries > 0 then (Again, st)
                     else (Finished (Inl (Error ''No content in response'')), st))
                | Some extractedData \<Rightarrow>
                    if extractedData = [] then
                      (if retries > 0 then (Again, st)
                       else (Finished (Inl (Error ''No content in response'')), st))
                    else
                      (case tryBlock env rm retries extractedData of
                         ReturnParsed parsedData \<Rightarrow>
                           (Finished (Inr (Parsed parsedData)),
                            cacheStore cl options (Parsed parsedData) st)
                       | ReturnRecursive \<Rightarrow> (Again, st)
                       | Thrown e \<Rightarrow>
                           (let st' = logger (log_failed_to_parse e extractedData) st in
                            if retries > 0 then (Again, st')
                            else (Finished (Inl (Error (''Failed to parse response: ''
                                                        @ error_message e))), st'))))))"

text \<open>
  Lines 177-302: the request is built and sent. The number of calls made before this one
  is the length of \<open>calls\<close>.
\<close>

definition sendRequest ::
  "'s env \<Rightarrow> client \<Rightarrow> 's options \<Rightarrow> int \<Rightarrow> 's state \<Rightarrow> step \<times> 's options \<times> 's state" where
  "sendRequest env cl options retries st =
     (let (options', responseFormat) = applyResponseModel env cl options;
          st1 = logger (log_options cl options') st;
          b = body cl options' responseFormat;
          st2 = st1\<lparr>calls := calls st1 @ [b]\<rparr>
      in case create env (length (calls st1)) b of
           Inl e \<Rightarrow> (Finished (Inl e), options', st2)
         | Inr r \<Rightarrow>
             (let (s, st3) = handleResponse env cl options' retries r
                               (logger (log_response options' r) st2)
              in (s, options', st3)))"

definition attempt ::
  "'s env \<Rightarrow> client \<Rightarrow> 's options \<Rightarrow> int \<Rightarrow> 's state \<Rightarrow> step \<times> 's options \<times> 's state" where
  "attempt env cl options retries st =
     (let st1 = logger (log_creating cl options) st in
      case cachedResponse cl options st1 of
        Some v \<Rightarrow> (Finished (Inr v), options, logger (log_cache_hit options v) st1)
      | None \<Rightarrow> sendRequest env cl options retries st1)"

text \<open>
  The method: the result, the \<open>options\<close> object as the call leaves it, and the state.
  The budget \<open>retries\<close> is an integer; the recursion ends because a pass asks for another
  one only when \<open>retries > 0\<close>.
\<close>

function createChatCompletion ::
  "'s env \<Rightarrow> client \<Rightarrow> 's options \<Rightarrow> int \<Rightarrow> 's state
     \<Rightarrow> (js_error + completion_result) \<times> 's options \<times> 's state" where
  "createChatCompletion env cl options retries st =
     (case attempt env cl options retries st of
        (Finished r, options', st') \<Rightarrow> (r, options', st')
      | (Again, options', st') \<Rightarrow> createChatCompletion env cl options' (retries - 1) st')"
  by pat_completeness auto
termination
  by (relation "measure (\<lambda>(env, cl, options, retries, st). nat retries)")
     (auto simp: attempt_def sendRequest_def handleResponse_def tryBlock_def Let_def
           split: option.splits sum.splits prod.splits try_end.splits if_splits)

declare createChatCompletion.simps [simp del]

subsection \<open>The kinds of failure that are retried\<close>

text \<open>
  A response is empty when it has no first-choice message. The other three kinds exist
  only on the schema path: the content of the first message is missing or empty, the
  cleaned content is not JSON, or the parsed value does not pass the schema.
\<close>

definition emptyResponse :: "response \<Rightarrow> bool" where
  "emptyResponse r = (firstMessage r = None)"

definition extractedData :: "response \<Rightarrow> string option" where
  "extractedData r = (case firstMessage r of None \<Rightarrow> None | Some m \<Rightarrow> message_content m)"

definition missingContent :: "response \<Rightarrow> bool" where
  "missingContent r =
     (\<not> emptyResponse r \<and> (case extractedData r of None \<Rightarrow> True | Some d \<Rightarrow> d = []))"

definition parseFailure :: "'s env \<Rightarrow> response \<Rightarrow> bool" where
  "parseFailure env r =
     (case extractedData r of
        None \<Rightarrow> False
      | Some d \<Rightarrow> d \<noteq> [] \<and> isl (JSON_parse env (cleanedContent d)))"

definition schemaMismatch :: "'s env \<Rightarrow> 's response_model \<Rightarrow> response \<Rightarrow> bool" where
  "schemaMismatch env rm r =
     (case extractedData r of
        None \<Rightarrow> False
      | Some d \<Rightarrow>
          d \<noteq> [] \<and>
          (case JSON_parse env (cleanedContent d) of
             Inl e \<Rightarrow> False
           | Inr v \<Rightarrow> isl (zod_parse env (schema rm) v)))"

definition retryableFailure :: "'s env \<Rightarrow> 's response_model option \<Rightarrow> response \<Rightarrow> bool" where
  "retryableFailure env rmo r =
     (emptyResponse r \<or>
      (case rmo of
         None \<Rightarrow> False
       | Some rm \<Rightarrow> missingContent r \<or> parseFailure env r \<or> schemaMismatch env rm r))"

text \<open>The options after \<open>k\<close> copies of a turn have been pushed onto the conversation.\<close>

definition grown :: "'s options \<Rightarrow> chat_message \<Rightarrow> nat \<Rightarrow> 's options" where
  "grown options m k = options\<lparr>messages := messages options @ replicate k m\<rparr>"

text \<open>
  The options object when \<open>k\<close> passes of the method have run the schema step of lines
  177-192 on it: the object that the pass after \<open>k\<close> retries receives.
\<close>

definition pushed :: "'s env \<Rightarrow> client \<Rightarrow> 's options \<Rightarrow> nat \<Rightarrow> 's options" where
  "pushed env cl options k = ((\<lambda>o'. fst (applyResponseModel env cl o')) ^^ k) options"

subsection \<open>Concrete collaborators and requests\<close>

text \<open>
  A provider stub, and \<open>JSON.parse\<close> and two zod schemas (\<open>z.number()\<close>, \<open>z.string()\<close>, named
  by their source text) on the few inputs used below.
\<close>

definition example_JSON_parse :: "string \<Rightarrow> js_error + json" where
  "example_JSON_parse s =
     (if s = ''0'' then Inr (JNum 0)
      else if s = ''1'' then Inr (JNum 1)
      else Inl (SyntaxError ''Unexpected token''))"

definition example_zod_parse :: "string \<Rightarrow> json \<Rightarrow> js_error + json" where
  "example_zod_parse sch v =
     (if sch = ''z.number()'' then
        (case v of JNum n \<Rightarrow> Inr v | _ \<Rightarrow> Inl (ZodError ''Expected number''))
      else if sch = ''z.string()'' then
        (case v of JStr t \<Rightarrow> Inr v | _ \<Rightarrow> Inl (ZodError ''Expected string''))
      else Inl (ZodError ''Invalid input''))"

definition example_response :: "string option \<Rightarrow> response" where
  "example_response c =
     \<lparr>response_id = ''gen-1'', choices = Some [\<lparr>message = Some \<lparr>message_content = c\<rparr>\<rparr>]\<rparr>"

definition empty_response :: response where
  "empty_response = \<lparr>response_id = ''gen-0'', choices = Some []\<rparr>"

definition example_env :: "(nat \<Rightarrow> string body \<Rightarrow> js_error + response) \<Rightarrow> string env" where
  "example_env remote =
     \<lparr>JSON_parse = example_JSON_parse, JSON_stringify = (\<lambda>s. s),
      zod_parse = example_zod_parse, create = remote\<rparr>"

text \<open>
  A provider whose four answers fail in the four ways: no message, no content, content
  that is not JSON, and (for \<open>z.string()\<close>) a value that does not pass the schema.
\<close>

definition failing_remote :: "nat \<Rightarrow> string body \<Rightarrow> js_error + response" where
  "failing_remote n b =
     (if n = 0 then Inr empty_response
      else if n = 1 then Inr (example_response None)
      else if n = 2 then Inr (example_response (Some ''oops''))
      else Inr (example_response (Some ''0'')))"

definition gemini_model :: string where
  "gemini_model = ''google/gemini-2.0-pro-exp-02-05:free''"

definition other_model :: string where
  "other_model = ''openai/gpt-4o''"

definition example_client :: "string \<Rightarrow> bool \<Rightarrow> client" where
  "example_client m caching = \<lparr>modelName = m, enableCaching = caching\<rparr>"

definition example_options :: "string \<Rightarrow> string \<Rightarrow> string options" where
  "example_options sch rid =
     \<lparr>messages = [\<lparr>role = User, content = Str ''how many''\<rparr>],
      temperature = Some 0.7, top_p = None, frequency_penalty = None, presence_penalty = None,
      image_opt = None, response_model = Some \<lparr>name = ''count'', schema = sch\<rparr>,
      tools = None, requestId = rid\<rparr>"


definition example_state :: "string LLMCache \<Rightarrow> string state" where
  "example_state c = \<lparr>cache = c, calls = [], logs = []\<rparr>"

section \<open>Properties\<close>

subsection \<open>The schema validator\<close>

text \<open>
  C9: the schema validator is a total boolean predicate. For every schema and every value
  it returns true exactly when parsing the value against the schema succeeds and false
  when the parse throws, and it never throws itself: whatever the parse method does, the
  result is a boolean and no error reaches the caller.
\<close>

theorem validateZodSchema_boolean:
  "validateZodSchema parse schema data =
     (case parse schema data of Inl e \<Rightarrow> Inr False | Inr v \<Rightarrow> Inr True)
   \<and> validateZodSchema parse schema data \<noteq> Inl e'"
  by (simp add: validateZodSchema_def try_catch_def split: sum.splits)

subsection \<open>The message formatter\<close>

lemma text_parts:
  "filter (\<lambda>c. wire_type c = ''text'') (contentParts cs) =
     map (\<lambda>c. TextPart (part_text c)) (filter (\<lambda>c. image_url c = None) cs)"
  by (induction cs) (auto simp: contentParts_def contentPart_def split: option.splits)

text \<open>
  C6: a turn whose content is an array of parts. With the role system or assistant the
  wire turn keeps the role and holds the text parts only, in their order, each as
  \<open>{type: text, text}\<close>; every part with an \<open>image_url\<close> is dropped. With the role user the
  wire turn holds every part in order, a part with an \<open>image_url\<close> as
  \<open>{type: image_url, url}\<close> and any other part as \<open>{type: text, text}\<close>.
\<close>

theorem parts_turn:
  "formattedMessage \<lparr>role = System, content = Parts cs\<rparr> =
     \<lparr>wire_role = System,
      wire_content = WParts (map (\<lambda>c. TextPart (part_text c))
                               (filter (\<lambda>c. image_url c = None) cs))\<rparr>
   \<and> formattedMessage \<lparr>role = Assistant, content = Parts cs\<rparr> =
     \<lparr>wire_role = Assistant,
      wire_content = WParts (map (\<lambda>c. TextPart (part_text c))
                               (filter (\<lambda>c. image_url c = None) cs))\<rparr>
   \<and> formattedMessage \<lparr>role = User, content = Parts cs\<rparr> =
     \<lparr>wire_role = User,
      wire_content = WParts (map (\<lambda>c. case image_url c of
                                        Some url \<Rightarrow> ImagePart url
                                      | None \<Rightarrow> TextPart (part_text c)) cs)\<rparr>"
  by (simp add: formattedMessage_def text_parts) (simp add: contentParts_def contentPart_def)

text \<open>
  C7: a turn whose content is a plain string becomes a user turn with that string, whatever
  role the turn declares.
\<close>

theorem plain_string_turn:
  "formattedMessage \<lparr>role = r, content = Str s\<rparr> = \<lparr>wire_role = User, wire_content = WStr s\<rparr>"
  by (simp add: formattedMessage_def)

subsection \<open>Cleaning the content\<close>

lemma containsFence_append: "containsFence t \<Longrightarrow> containsFence (p @ t)"
  by (induction p) auto

lemma containsFence_dropWhile: "containsFence (dropWhile P s) \<Longrightarrow> containsFence s"
  by (metis containsFence_append takeWhile_dropWhile_id)

lemma prefix_fence_contains: "prefix ''```'' s \<Longrightarrow> containsFence s"
  by (cases s) auto

lemma stripOpeningFence_free: "\<not> containsFence s \<Longrightarrow> stripOpeningFence s = s"
  using containsFence_dropWhile prefix_fence_contains
  by (auto simp: stripOpeningFence_def Let_def)

lemma matches_contains: "matchesClosingFence t \<Longrightarrow> containsFence t"
  by (cases t)
     (auto simp: matchesClosingFence_def Let_def split: if_splits dest: prefix_fence_contains)

lemma stripClosingFence_free: "\<not> containsFence s \<Longrightarrow> stripClosingFence s = s"
proof (induction s)
  case Nil
  then show ?case by simp
next
  case (Cons c cs)
  then have "\<not> matchesClosingFence (c # cs)"
    using matches_contains by blast
  with Cons show ?case by simp
qed

lemma dropWhile_whitespace_fence:
  "list_all isWhiteSpace ws \<Longrightarrow>
   dropWhile isWhiteSpace (ws @ ''```'' @ r) = ''```'' @ r"
proof -
  assume "list_all isWhiteSpace ws"
  then have "dropWhile isWhiteSpace (ws @ ''```'' @ r) = dropWhile isWhiteSpace (''```'' @ r)"
    by (intro dropWhile_append2) (simp add: list_all_iff)
  then show ?thesis
    by (simp add: isWhiteSpace_def)
qed

lemma opening_removed:
  assumes "list_all isWhiteSpace ws"
    and "j = [] \<or> j = ''json''"
    and "n = [] \<or> n = [CHR 0x0A]"
    and "j = [] \<longrightarrow> \<not> prefix ''json'' (n @ rest)"
    and "n = [] \<longrightarrow> \<not> prefix [CHR 0x0A] rest"
  shows "stripOpeningFence (ws @ ''```'' @ j @ n @ rest) = rest"
proof -
  have dw: "dropWhile isWhiteSpace (ws @ ''```'' @ j @ n @ rest) = ''```'' @ j @ n @ rest"
    using assms(1) by (rule dropWhile_whitespace_fence)
  show ?thesis
    unfolding stripOpeningFence_def dw Let_def
    using assms(2-5) by auto
qed

lemma opening_none:
  assumes "\<forall>ws r. list_all isWhiteSpace ws \<longrightarrow> s \<noteq> ws @ ''```'' @ r"
  shows "stripOpeningFence s = s"
proof (cases "prefix ''```'' (dropWhile isWhiteSpace s)")
  case False
  then show ?thesis
    by (simp add: stripOpeningFence_def)
next
  case True
  then obtain r where "dropWhile isWhiteSpace s = ''```'' @ r"
    by (auto simp: prefix_def)
  then have "s = takeWhile isWhiteSpace s @ ''```'' @ r"
    by (metis takeWhile_dropWhile_id)
  moreover have "list_all isWhiteSpace (takeWhile isWhiteSpace s)"
    by (auto simp: list_all_iff dest: set_takeWhileD)
  ultimately show ?thesis
    using assms by blast
qed

lemma matchesClosingFence_iff:
  "matchesClosingFence t \<longleftrightarrow>
     (\<exists>c w. (c = [] \<or> c = [CHR 0x0A]) \<and> list_all isWhiteSpace w \<and> t = c @ ''```'' @ w)"
proof
  assume m: "matchesClosingFence t"
  define c where "c = (if prefix [CHR 0x0A] t then [CHR 0x0A] else [])"
  define t1 where "t1 = (if prefix [CHR 0x0A] t then drop 1 t else t)"
  have t: "t = c @ t1"
    by (auto simp: c_def t1_def prefix_def)
  from m have "prefix ''```'' t1" and w: "list_all isWhiteSpace (drop 3 t1)"
    by (simp_all add: matchesClosingFence_def Let_def t1_def)
  then have "t1 = ''```'' @ drop 3 t1"
    by (auto simp: prefix_def)
  with t w show "\<exists>c w. (c = [] \<or> c = [CHR 0x0A]) \<and> list_all isWhiteSpace w \<and> t = c @ ''```'' @ w"
    by (metis c_def)
next
  assume "\<exists>c w. (c = [] \<or> c = [CHR 0x0A]) \<and> list_all isWhiteSpace w \<and> t = c @ ''```'' @ w"
  then show "matchesClosingFence t"
    by (auto simp: matchesClosingFence_def Let_def)
qed

lemma rev_dropWhile_tail:
  assumes "list_all P w" and "f \<noteq> []" and "\<not> P (last f)"
  shows "dropWhile P (rev (p @ f @ w)) = rev (p @ f)"
proof -
  have w: "dropWhile P (rev w @ rev (p @ f)) = dropWhile P (rev (p @ f))"
    using assms(1) by (intro dropWhile_append2) (simp add: list_all_iff)
  obtain x g where f: "f = g @ [x]"
    using assms(2) by (metis append_butlast_last_id)
  then have "\<not> P x"
    using assms(3) by simp
  then have "dropWhile P (rev (p @ f)) = rev (p @ f)"
    by (simp add: f)
  with w show ?thesis
    by simp
qed

lemma fence_position:
  assumes "list_all isWhiteSpace w" and "list_all isWhiteSpace w'"
    and "p @ ''```'' @ w = p' @ ''```'' @ w'"
  shows "p = p'"
proof -
  have f: "''```'' \<noteq> []" "\<not> isWhiteSpace (last ''```'')"
    by (simp_all add: isWhiteSpace_def)
  have "rev (p @ ''```'') = dropWhile isWhiteSpace (rev (p @ ''```'' @ w))"
    using rev_dropWhile_tail [OF assms(1) f] by (rule sym)
  also have "\<dots> = dropWhile isWhiteSpace (rev (p' @ ''```'' @ w'))"
    by (simp only: assms(3))
  also have "\<dots> = rev (p' @ ''```'')"
    using rev_dropWhile_tail [OF assms(2) f] .
  finally have "p @ ''```'' = p' @ ''```''"
    by (simp only: rev_is_rev_conv)
  then show ?thesis
    by (simp only: append_same_eq)
qed

lemma closing_removed:
  assumes "list_all isWhiteSpace ws"
    and "c = [] \<or> c = [CHR 0x0A]"
  shows "(c = [] \<longrightarrow> b = [] \<or> last b \<noteq> CHR 0x0A) \<Longrightarrow>
         stripClosingFence (b @ c @ ''```'' @ ws) = b"
proof (induction b)
  case Nil
  have "matchesClosingFence (c @ ''```'' @ ws)"
    using assms matchesClosingFence_iff by blast
  then show ?case
    using assms(2) by auto
next
  case (Cons x b)
  have "\<not> matchesClosingFence ((x # b) @ c @ ''```'' @ ws)"
  proof
    assume "matchesClosingFence ((x # b) @ c @ ''```'' @ ws)"
    then obtain c' w' where c': "c' = [] \<or> c' = [CHR 0x0A]"
      and w': "list_all isWhiteSpace w'"
      and eq: "(x # b) @ c @ ''```'' @ ws = c' @ ''```'' @ w'"
      using matchesClosingFence_iff by blast
    have "((x # b) @ c) @ ''```'' @ ws = c' @ ''```'' @ w'"
      using eq by simp
    then have "(x # b) @ c = c'"
      using fence_position [OF assms(1) w'] by blast
    with c' have "b = []" "c = []" "x = CHR 0x0A"
      by auto
    with Cons.prems show False
      by simp
  qed
  moreover have "c = [] \<longrightarrow> b = [] \<or> last b \<noteq> CHR 0x0A"
    using Cons.prems by auto
  ultimately show ?case
    using Cons.IH by simp
qed

lemma closing_none:
  "\<forall>b ws. list_all isWhiteSpace ws \<longrightarrow> s \<noteq> b @ ''```'' @ ws \<Longrightarrow> stripClosingFence s = s"
proof (induction s)
  case Nil
  then show ?case by simp
next
  case (Cons x s)
  have "\<not> matchesClosingFence (x # s)"
  proof
    assume "matchesClosingFence (x # s)"
    then obtain c w where "list_all isWhiteSpace w" "x # s = c @ ''```'' @ w"
      using matchesClosingFence_iff by blast
    with Cons.prems show False
      by blast
  qed
  moreover have "\<forall>b ws. list_all isWhiteSpace ws \<longrightarrow> s \<noteq> b @ ''```'' @ ws"
  proof (intro allI impI notI)
    fix b ws
    assume "list_all isWhiteSpace ws" "s = b @ ''```'' @ ws"
    then have "list_all isWhiteSpace ws \<and> x # s = (x # b) @ ''```'' @ ws"
      by simp
    with Cons.prems show False
      by blast
  qed
  ultimately show ?case
    using Cons.IH by simp
qed

lemma dropWhile_all: "list_all P xs \<Longrightarrow> dropWhile P xs = []"
  by (simp add: dropWhile_eq_Nil_conv list_all_iff)

lemma trim_removed:
  assumes "list_all isWhiteSpace a" and "list_all isWhiteSpace b"
    and "t = [] \<or> (\<not> isWhiteSpace (hd t) \<and> \<not> isWhiteSpace (last t))"
  shows "trim (a @ t @ b) = t"
proof (cases "t = []")
  case True
  have "list_all isWhiteSpace (a @ b)"
    using assms(1,2) by simp
  then have d: "dropWhile isWhiteSpace (a @ b) = []"
    by (rule dropWhile_all)
  have "trim (a @ b) = []"
    unfolding trim_def d by simp
  then show ?thesis
    using True by simp
next
  case False
  then have h: "\<not> isWhiteSpace (hd t)" and l: "\<not> isWhiteSpace (last t)"
    using assms(3) by auto
  have "dropWhile isWhiteSpace (a @ t @ b) = dropWhile isWhiteSpace (t @ b)"
    using assms(1) by (intro dropWhile_append2) (simp add: list_all_iff)
  also have "\<dots> = t @ b"
    using False h by (cases t) auto
  finally have front: "dropWhile isWhiteSpace (a @ t @ b) = t @ b" .
  have "dropWhile isWhiteSpace (rev ([] @ t @ b)) = rev ([] @ t)"
    using assms(2) False l by (rule rev_dropWhile_tail)
  then show ?thesis
    unfolding trim_def front by simp
qed

lemma trim_line_feed: "trim (b @ [CHR 0x0A]) = trim b"
proof (cases "list_all isWhiteSpace b")
  case True
  then have "list_all isWhiteSpace (b @ [CHR 0x0A])"
    by (simp add: isWhiteSpace_def)
  then have d1: "dropWhile isWhiteSpace (b @ [CHR 0x0A]) = []"
    by (rule dropWhile_all)
  have d2: "dropWhile isWhiteSpace b = []"
    using True by (rule dropWhile_all)
  show ?thesis
    unfolding trim_def d1 d2 by simp
next
  case False
  then obtain x where "x \<in> set b" "\<not> isWhiteSpace x"
    by (auto simp: list_all_iff)
  then have d: "dropWhile isWhiteSpace (b @ [CHR 0x0A]) = dropWhile isWhiteSpace b @ [CHR 0x0A]"
    by (intro dropWhile_append1)
  show ?thesis
    unfolding trim_def d by (simp add: isWhiteSpace_def)
qed

lemma both_fences_removed:
  assumes "list_all isWhiteSpace ws1" and "list_all isWhiteSpace ws2"
    and "j = [] \<or> j = ''json''"
    and "n = [] \<or> n = [CHR 0x0A]"
    and "c = [] \<or> c = [CHR 0x0A]"
    and "j = [] \<longrightarrow> \<not> prefix ''json'' (n @ inner @ c @ ''```'' @ ws2)"
    and "n = [] \<longrightarrow> \<not> prefix [CHR 0x0A] (inner @ c @ ''```'' @ ws2)"
  shows "cleanedContent (ws1 @ ''```'' @ j @ n @ inner @ c @ ''```'' @ ws2) = trim inner"
proof -
  have o: "stripOpeningFence (ws1 @ ''```'' @ j @ n @ inner @ c @ ''```'' @ ws2)
             = inner @ c @ ''```'' @ ws2"
    using opening_removed [OF assms(1,3,4,6,7)] .
  show ?thesis
  proof (cases "c = [] \<and> inner \<noteq> [] \<and> last inner = CHR 0x0A")
    case False
    then have "stripClosingFence (inner @ c @ ''```'' @ ws2) = inner"
      using closing_removed [OF assms(2,5), of inner] by blast
    then show ?thesis
      unfolding cleanedContent_def o by (simp only:)
  next
    case True
    then obtain b' where b': "inner = b' @ [CHR 0x0A]"
      by (metis append_butlast_last_id)
    have "stripClosingFence (b' @ [CHR 0x0A] @ ''```'' @ ws2) = b'"
      using closing_removed [OF assms(2), of "[CHR 0x0A]" b'] by simp
    then have "stripClosingFence (inner @ c @ ''```'' @ ws2) = b'"
      using True b' by simp
    then show ?thesis
      unfolding cleanedContent_def o by (simp only: b' trim_line_feed)
  qed
qed

text \<open>
  C5 as stated fails twice. A text without fences is not returned as it is when it has
  white space at an end: cleaning \<open>" x"\<close> gives \<open>"x"\<close>. And the leading marker of the
  code is not the one the claim writes: on \<open>"``` json\nx"\<close> the claim's pattern
  \<open>```\s*(json)?\n?\<close> would leave \<open>"x"\<close>, the code leaves \<open>"json\nx"\<close>.
\<close>

theorem cleanedContent_counterexample:
  \<open>\<not> containsFence '' x'' \<and> cleanedContent '' x'' \<noteq> '' x''
   \<and> cleanedContent_spec ''``` json\<newline>x'' = ''x''
   \<and> cleanedContent ''``` json\<newline>x'' = ''json\<newline>x''\<close>
  by (simp add: cleanedContent_def cleanedContent_spec_def stripOpeningFence_def
        stripOpeningFence_spec_def matchesClosingFence_def trim_def isWhiteSpace_def)

text \<open>
  C5, amended: the cleaning step removes from the start of the text a marker matching
  \<open>^\s*```(json)?\n?\<close> (white space before the backquotes, none between them and \<open>json\<close>;
  \<open>json\<close> and the line feed are taken whenever they are there) and leaves a text without
  such a marker as it is; then it removes from the end a marker matching \<open>\n?```\s*$\<close> (the
  line feed is taken whenever it is there) and leaves a text without one as it is; then it
  trims white space at both ends. So a text with both markers is cleaned to what stands
  between them, trimmed; a text that contains no fence is cleaned to the text trimmed, a
  no-op when it has no white space at either end; and cleaning \<open>```json\n{"a":1}\n```\<close>
  yields \<open>{"a":1}\<close>.
\<close>

theorem cleanedContent_fences:
  \<open>(list_all isWhiteSpace ws \<and> (j = [] \<or> j = ''json'') \<and> (n = [] \<or> n = [CHR 0x0A])
      \<and> (j = [] \<longrightarrow> \<not> prefix ''json'' (n @ rest))
      \<and> (n = [] \<longrightarrow> \<not> prefix [CHR 0x0A] rest)
      \<longrightarrow> stripOpeningFence (ws @ ''```'' @ j @ n @ rest) = rest)
   \<and> ((\<forall>ws r. list_all isWhiteSpace ws \<longrightarrow> s \<noteq> ws @ ''```'' @ r)
      \<longrightarrow> stripOpeningFence s = s)
   \<and> (list_all isWhiteSpace ws \<and> (c = [] \<or> c = [CHR 0x0A])
      \<and> (c = [] \<longrightarrow> b = [] \<or> last b \<noteq> CHR 0x0A)
      \<longrightarrow> stripClosingFence (b @ c @ ''```'' @ ws) = b)
   \<and> ((\<forall>b ws. list_all isWhiteSpace ws \<longrightarrow> s \<noteq> b @ ''```'' @ ws)
      \<longrightarrow> stripClosingFence s = s)
   \<and> (list_all isWhiteSpace ws \<and> list_all isWhiteSpace ws'
      \<and> (t = [] \<or> (\<not> isWhiteSpace (hd t) \<and> \<not> isWhiteSpace (last t)))
      \<longrightarrow> trim (ws @ t @ ws') = t)
   \<and> cleanedContent s = trim (stripClosingFence (stripOpeningFence s))
   \<and> (list_all isWhiteSpace ws \<and> list_all isWhiteSpace ws'
      \<and> (j = [] \<or> j = ''json'') \<and> (n = [] \<or> n = [CHR 0x0A]) \<and> (c = [] \<or> c = [CHR 0x0A])
      \<and> (j = [] \<longrightarrow> \<not> prefix ''json'' (n @ inner @ c @ ''```'' @ ws'))
      \<and> (n = [] \<longrightarrow> \<not> prefix [CHR 0x0A] (inner @ c @ ''```'' @ ws'))
      \<longrightarrow> cleanedContent (ws @ ''```'' @ j @ n @ inner @ c @ ''```'' @ ws') = trim inner)
   \<and> (\<not> containsFence s \<longrightarrow> cleanedContent s = trim s)
   \<and> (\<not> containsFence s \<and> trim s = s \<longrightarrow> cleanedContent s = s)
   \<and> cleanedContent ''```json\<newline>{"a":1}\<newline>```'' = ''{"a":1}''\<close>
proof -
  have free: "\<not> containsFence s \<longrightarrow> cleanedContent s = trim s"
    by (simp add: cleanedContent_def stripOpeningFence_free stripClosingFence_free)
  have ex: \<open>cleanedContent ''```json\<newline>{"a":1}\<newline>```'' = ''{"a":1}''\<close>
    by (simp add: cleanedContent_def stripOpeningFence_def matchesClosingFence_def
          trim_def isWhiteSpace_def)
  show ?thesis
    using opening_removed [of ws j n rest] opening_none [of s]
          closing_removed [of ws c b] closing_none [of s]
          trim_removed [of ws ws' t] both_fences_removed [of ws ws' j n c inner] free ex
    by (simp add: cleanedContent_def)
qed

theorem cleanedContent_fences_witness:
  \<open>list_all isWhiteSpace [CHR 0x20] \<and> list_all isWhiteSpace [CHR 0x0A]
   \<and> \<not> prefix [CHR 0x0A] (''{"a":1}'' @ [CHR 0x0A] @ ''```'' @ [CHR 0x0A])
   \<and> \<not> prefix ''json'' ([] @ ''{"a":1}'' @ [CHR 0x0A] @ ''```'' @ [CHR 0x0A])
   \<and> cleanedContent ([CHR 0x20] @ ''```'' @ [] @ [] @ ''{"a":1}'' @ [CHR 0x0A] @ ''```''
                      @ [CHR 0x0A])
     = trim ''{"a":1}''
   \<and> trim ([] @ ''{"a":1}'' @ []) = ''{"a":1}''
   \<and> \<not> containsFence ''{"a":1}''
   \<and> cleanedContent ''{"a":1}'' = ''{"a":1}''\<close>
proof -
  note both = cleanedContent_fences
    [THEN conjunct2, THEN conjunct2, THEN conjunct2, THEN conjunct2, THEN conjunct2,
     THEN conjunct2, THEN conjunct1, THEN mp]
  note trimmed = cleanedContent_fences
    [THEN conjunct2, THEN conjunct2, THEN conjunct2, THEN conjunct2, THEN conjunct1, THEN mp]
  note no_op = cleanedContent_fences
    [THEN conjunct2, THEN conjunct2, THEN conjunct2, THEN conjunct2, THEN conjunct2,
     THEN conjunct2, THEN conjunct2, THEN conjunct2, THEN conjunct1, THEN mp]
  have h: \<open>list_all isWhiteSpace [CHR 0x20] \<and> list_all isWhiteSpace [CHR 0x0A]
     \<and> \<not> prefix [CHR 0x0A] (''{"a":1}'' @ [CHR 0x0A] @ ''```'' @ [CHR 0x0A])
     \<and> \<not> prefix ''json'' ([] @ ''{"a":1}'' @ [CHR 0x0A] @ ''```'' @ [CHR 0x0A])
     \<and> \<not> containsFence ''{"a":1}''\<close>
    by (simp add: isWhiteSpace_def)
  have b: \<open>cleanedContent ([CHR 0x20] @ ''```'' @ [] @ [] @ ''{"a":1}'' @ [CHR 0x0A]
                 @ ''```'' @ [CHR 0x0A]) = trim ''{"a":1}''\<close>
    by (rule both) (simp add: isWhiteSpace_def)
  have tr: \<open>trim ([] @ ''{"a":1}'' @ []) = ''{"a":1}''\<close>
    by (rule trimmed) (simp add: isWhiteSpace_def)
  have nop: \<open>cleanedContent ''{"a":1}'' = ''{"a":1}''\<close>
    by (rule no_op) (use tr in simp)
  from h b tr nop show ?thesis
    by blast
qed

subsection \<open>One pass of the method\<close>

lemma cachedResponse_logger [simp]:
  "cachedResponse cl options (logger l st) = cachedResponse cl options st"
  by (simp add: cachedResponse_def logger_def)

lemma cachedResponse_hit:
  "enableCaching cl \<Longrightarrow>
   LLMCache_get (cache st) (cacheOptions cl options) (requestId options) = Some v \<Longrightarrow>
   truthy_result v \<Longrightarrow> cachedResponse cl options st = Some v"
  by (simp add: cachedResponse_def)

lemma cachedResponse_cache:
  "cache st' = cache st \<Longrightarrow> cachedResponse cl options st' = cachedResponse cl options st"
  by (simp add: cachedResponse_def)

lemma attempt_hit:
  "cachedResponse cl options st = Some v \<Longrightarrow>
   attempt env cl options retries st =
     (Finished (Inr v), options,
      logger (log_cache_hit options v) (logger (log_creating cl options) st))"
  by (simp add: attempt_def Let_def)

lemma attempt_miss:
  "cachedResponse cl options st = None \<Longrightarrow>
   attempt env cl options retries st =
     sendRequest env cl options retries (logger (log_creating cl options) st)"
  by (simp add: attempt_def Let_def)

lemma tryBlock_ReturnRecursive:
  "tryBlock env rm retries d = ReturnRecursive \<Longrightarrow> 0 < retries"
  by (auto simp: tryBlock_def split: sum.splits if_splits)

lemma handleResponse_Again:
  "handleResponse env cl options retries r st = (Again, st') \<Longrightarrow> 0 < retries"
  by (auto simp: handleResponse_def Let_def dest: tryBlock_ReturnRecursive
           split: option.splits try_end.splits if_splits)

lemma attempt_Again_retries:
  "attempt env cl options retries st = (Again, options', st') \<Longrightarrow> 0 < retries"
  by (auto simp: attempt_def sendRequest_def Let_def dest: handleResponse_Again
           split: option.splits sum.splits prod.splits)

lemma createChatCompletion_Again:
  "attempt env cl options retries st = (Again, options1, st1) \<Longrightarrow>
   createChatCompletion env cl options retries st =
     createChatCompletion env cl options1 (retries - 1) st1"
  by (subst createChatCompletion.simps) simp

lemma createChatCompletion_Finished:
  "attempt env cl options retries st = (Finished r, options1, st1) \<Longrightarrow>
   createChatCompletion env cl options retries st = (r, options1, st1)"
  by (subst createChatCompletion.simps) simp

lemma createChatCompletion_hit:
  "cachedResponse cl options st = Some v \<Longrightarrow>
   createChatCompletion env cl options retries st =
     (Inr v, options,
      st\<lparr>logs := logs st @ [log_creating cl options, log_cache_hit options v]\<rparr>)"
  by (simp add: createChatCompletion_Finished [OF attempt_hit] logger_def)

lemma applyResponseModel_response_model [simp]:
  "response_model (fst (applyResponseModel env cl options)) = response_model options"
  by (simp add: applyResponseModel_def split: option.splits)

lemma applyResponseModel_messages_update [simp]:
  "(fst (applyResponseModel env cl options))\<lparr>messages := ms\<rparr> = options\<lparr>messages := ms\<rparr>"
  by (simp add: applyResponseModel_def split: option.splits)

lemma applyResponseModel_gemini:
  "prefix ''google/gemini'' (modelName cl) \<Longrightarrow> response_model options = Some rm \<Longrightarrow>
   applyResponseModel env cl options = (grown options (schemaInstruction env rm) (Suc 0), None)"
  by (simp add: applyResponseModel_def grown_def)

lemma applyResponseModel_other:
  "\<not> prefix ''google/gemini'' (modelName cl) \<Longrightarrow> response_model options = Some rm \<Longrightarrow>
   applyResponseModel env cl options =
     (options, Some (ZodResponseFormat (schema rm) (name rm)))"
  by (simp add: applyResponseModel_def)

lemma body_response_format_body [simp]:
  "body_response_format (body cl options rf) = rf"
  by (simp add: body_def Let_def)

lemma body_messages_body [simp]:
  "body_messages (body cl options rf) = formattedMessages (messages options)"
  by (simp add: body_def Let_def)

lemma handleResponse_calls:
  "handleResponse env cl options retries r st = (s, st') \<Longrightarrow> calls st' = calls st"
  by (auto simp: handleResponse_def cacheStore_def logger_def Let_def
          split: option.splits try_end.splits if_splits)

lemma sendRequest_calls:
  assumes "sendRequest env cl options retries st = (s, o1, st1)"
  shows "o1 = fst (applyResponseModel env cl options)
    \<and> calls st1 = calls st @ [body cl (fst (applyResponseModel env cl options))
                                       (snd (applyResponseModel env cl options))]"
proof -
  obtain options' rf where ap: "applyResponseModel env cl options = (options', rf)"
    by (cases "applyResponseModel env cl options")
  show ?thesis
    using assms ap
    by (auto simp: sendRequest_def Let_def logger_def
             split: sum.splits prod.splits dest!: handleResponse_calls)
qed

lemma attempt_calls:
  assumes "attempt env cl options retries st = (s, o1, st1)"
  shows "(o1 = options \<and> s \<noteq> Again \<and> calls st1 = calls st)
   \<or> (o1 = fst (applyResponseModel env cl options)
     \<and> calls st1 = calls st @ [body cl (fst (applyResponseModel env cl options))
                                       (snd (applyResponseModel env cl options))])"
proof (cases "cachedResponse cl options st")
  case None
  have "calls (logger (log_creating cl options) st) = calls st"
    by (simp add: logger_def)
  then show ?thesis
    using sendRequest_calls [of env cl options retries "logger (log_creating cl options) st"
                                s o1 st1]
          assms attempt_miss [OF None, of env retries]
    by simp
next
  case (Some v)
  then show ?thesis
    using assms by (auto simp: attempt_hit logger_def)
qed

subsection \<open>The cache\<close>

text \<open>
  C8 as stated fails for a stored value that JavaScript takes for false. The cache holds
  the parsed value \<open>0\<close> under the key of the request (a value that line 348 stores when
  the schema is \<open>z.number()\<close>); the test \<open>if (cachedResponse)\<close> of line 157 fails, the
  provider is called, and its answer \<open>1\<close> is returned instead of the cached \<open>0\<close>.
\<close>

theorem cache_hit_counterexample:
  "enableCaching (example_client gemini_model True)
   \<and> LLMCache_get
        (cache (example_state
           [cacheOptions (example_client gemini_model True)
              (example_options ''z.number()'' ''abc'') \<mapsto> Parsed (JNum 0)]))
        (cacheOptions (example_client gemini_model True)
           (example_options ''z.number()'' ''abc''))
        (requestId (example_options ''z.number()'' ''abc'')) = Some (Parsed (JNum 0))
   \<and> fst (createChatCompletion (example_env (\<lambda>n b. Inr (example_response (Some ''1''))))
          (example_client gemini_model True)
          (example_options ''z.number()'' ''abc'') 3
          (example_state
             [cacheOptions (example_client gemini_model True)
                (example_options ''z.number()'' ''abc'') \<mapsto> Parsed (JNum 0)]))
       = Inr (Parsed (JNum 1))
   \<and> length (calls (snd (snd (createChatCompletion
          (example_env (\<lambda>n b. Inr (example_response (Some ''1''))))
          (example_client gemini_model True)
          (example_options ''z.number()'' ''abc'') 3
          (example_state
             [cacheOptions (example_client gemini_model True)
                (example_options ''z.number()'' ''abc'') \<mapsto> Parsed (JNum 0)]))))) = 1"
proof -
  let ?env = "example_env (\<lambda>n b. Inr (example_response (Some ''1'')))"
  let ?cl = "example_client gemini_model True"
  let ?o = "example_options ''z.number()'' ''abc''"
  let ?st = "example_state [cacheOptions ?cl ?o \<mapsto> Parsed (JNum 0)]"
  have "\<exists>o' st'. attempt ?env ?cl ?o 3 ?st = (Finished (Inr (Parsed (JNum 1))), o', st')
          \<and> length (calls st') = 1"
    by (simp add: attempt_def sendRequest_def handleResponse_def tryBlock_def Let_def
          cachedResponse_def LLMCache_get_def LLMCache_set_def cacheOptions_def example_env_def
          example_client_def example_options_def example_state_def applyResponseModel_def
          example_response_def firstMessage_def logger_def cleanedContent_def
          stripOpeningFence_def matchesClosingFence_def trim_def isWhiteSpace_def
          example_JSON_parse_def example_zod_parse_def validateZodSchema_def try_catch_def
          cacheStore_def gemini_model_def)
  then obtain o' st' where
    a: "attempt ?env ?cl ?o 3 ?st = (Finished (Inr (Parsed (JNum 1))), o', st')"
    and c: "length (calls st') = 1"
    by blast
  have "createChatCompletion ?env ?cl ?o 3 ?st = (Inr (Parsed (JNum 1)), o', st')"
    using a by (rule createChatCompletion_Finished)
  then show ?thesis
    using c by (simp add: LLMCache_get_def example_state_def example_client_def)
qed

text \<open>
  C8, amended: when caching is enabled and the cache lookup returns a value that
  JavaScript takes for true (a raw response, or a parsed value other than \<open>null\<close>,
  \<open>false\<close>, \<open>0\<close> and the empty string), the method returns that value unchanged in its first
  pass, for every request and every budget: the options, the cache and the list of remote
  calls are as before, and only the two log events of the hit are added.
\<close>

theorem cache_hit_short_circuit:
  assumes "enableCaching cl"
    and "LLMCache_get (cache st) (cacheOptions cl options) (requestId options) = Some v"
    and "truthy_result v"
  shows "createChatCompletion env cl options retries st =
           (Inr v, options,
            st\<lparr>logs := logs st @ [log_creating cl options, log_cache_hit options v]\<rparr>)
       \<and> (\<exists>st'. attempt env cl options retries st = (Finished (Inr v), options, st'))
       \<and> calls (snd (snd (createChatCompletion env cl options retries st))) = calls st
       \<and> cache (snd (snd (createChatCompletion env cl options retries st))) = cache st"
proof -
  have hit: "cachedResponse cl options st = Some v"
    using assms by (rule cachedResponse_hit)
  show ?thesis
    by (simp add: createChatCompletion_hit [OF hit] attempt_hit [OF hit])
qed

theorem cache_hit_short_circuit_witness:
  "enableCaching (example_client gemini_model True)
   \<and> LLMCache_get
        (cache (example_state
           [cacheOptions (example_client gemini_model True)
              (example_options ''z.number()'' ''abc'') \<mapsto> Parsed (JNum 1)]))
        (cacheOptions (example_client gemini_model True)
           (example_options ''z.number()'' ''abc''))
        (requestId (example_options ''z.number()'' ''abc'')) = Some (Parsed (JNum 1))
   \<and> truthy_result (Parsed (JNum 1))
   \<and> fst (createChatCompletion (example_env failing_remote)
          (example_client gemini_model True)
          (example_options ''z.number()'' ''abc'') 0
          (example_state
             [cacheOptions (example_client gemini_model True)
                (example_options ''z.number()'' ''abc'') \<mapsto> Parsed (JNum 1)]))
       = Inr (Parsed (JNum 1))
   \<and> calls (snd (snd (createChatCompletion (example_env failing_remote)
          (example_client gemini_model True)
          (example_options ''z.number()'' ''abc'') 0
          (example_state
             [cacheOptions (example_client gemini_model True)
                (example_options ''z.number()'' ''abc'') \<mapsto> Parsed (JNum 1)])))) = []"
proof -
  let ?cl = "example_client gemini_model True"
  let ?o = "example_options ''z.number()'' ''abc''"
  let ?st = "example_state [cacheOptions ?cl ?o \<mapsto> Parsed (JNum 1)]"
  have h1: "enableCaching ?cl"
    by (simp add: example_client_def)
  have h2: "LLMCache_get (cache ?st) (cacheOptions ?cl ?o) (requestId ?o) = Some (Parsed (JNum 1))"
    by (simp add: LLMCache_get_def example_state_def)
  have h3: "truthy_result (Parsed (JNum 1))"
    by simp
  from cache_hit_short_circuit [OF h1 h2 h3, of "example_env failing_remote" 0] h1 h2 h3
  show ?thesis
    by (simp add: example_state_def)
qed







subsection \<open>The retry budget\<close>

lemma handleResponse_empty:
  "emptyResponse r \<Longrightarrow>
   handleResponse env cl options retries r st =
     (if 0 < retries then Again
      else Finished (Inl (Error ''Invalid or empty response from OpenRouter API'')), st)"
  by (simp add: handleResponse_def emptyResponse_def)

lemma handleResponse_failure:
  assumes "retryableFailure env (response_model options) r"
  shows "\<exists>e st'. handleResponse env cl options retries r st =
            (if 0 < retries then Again else Finished (Inl e), st')
          \<and> cache st' = cache st \<and> calls st' = calls st"
  using assms
  by (auto simp: retryableFailure_def emptyResponse_def missingContent_def parseFailure_def
        schemaMismatch_def extractedData_def handleResponse_def tryBlock_def Let_def logger_def
        validateZodSchema_def try_catch_def
      split: option.splits sum.splits)

lemma sendRequest_failure:
  assumes "create env (length (calls st)) (body cl (fst (applyResponseModel env cl options))
              (snd (applyResponseModel env cl options))) = Inr r"
    and "retryableFailure env (response_model options) r"
  shows "\<exists>e st'. sendRequest env cl options retries st =
            (if 0 < retries then Again else Finished (Inl e),
             fst (applyResponseModel env cl options), st')
          \<and> (emptyResponse r \<longrightarrow> e = Error ''Invalid or empty response from OpenRouter API'')
          \<and> cache st' = cache st
          \<and> calls st' = calls st @ [body cl (fst (applyResponseModel env cl options))
                                       (snd (applyResponseModel env cl options))]"
proof -
  obtain options' rf where ap: "applyResponseModel env cl options = (options', rf)"
    by (cases "applyResponseModel env cl options")
  define st2 where "st2 = logger (log_response options' r)
     ((logger (log_options cl options') st)\<lparr>calls := calls st @ [body cl options' rf]\<rparr>)"
  have rm: "response_model options' = response_model options"
    using applyResponseModel_response_model [of env cl options] ap by simp
  have sr: "sendRequest env cl options retries st =
     (fst (handleResponse env cl options' retries r st2), options',
      snd (handleResponse env cl options' retries r st2))"
    using assms(1) ap
    by (simp add: sendRequest_def Let_def logger_def st2_def split: prod.splits)
  have c2: "cache st2 = cache st" "calls st2 = calls st @ [body cl options' rf]"
    by (simp_all add: st2_def logger_def)
  show ?thesis
  proof (cases "emptyResponse r")
    case True
    then show ?thesis
      using sr ap c2 by (simp add: handleResponse_empty)
  next
    case False
    from handleResponse_failure [of env options' r cl retries st2] assms(2) rm
    obtain e st' where "handleResponse env cl options' retries r st2 =
            (if 0 < retries then Again else Finished (Inl e), st')"
       "cache st' = cache st2" "calls st' = calls st2"
      by auto
    then show ?thesis
      using sr ap c2 False by auto
  qed
qed

lemma attempt_failure:
  assumes "cachedResponse cl options st = None"
    and "create env (length (calls st)) (body cl (fst (applyResponseModel env cl options))
              (snd (applyResponseModel env cl options))) = Inr r"
    and "retryableFailure env (response_model options) r"
  shows "\<exists>e st'. attempt env cl options retries st =
            (if 0 < retries then Again else Finished (Inl e),
             fst (applyResponseModel env cl options), st')
          \<and> (emptyResponse r \<longrightarrow> e = Error ''Invalid or empty response from OpenRouter API'')
          \<and> cache st' = cache st
          \<and> calls st' = calls st @ [body cl (fst (applyResponseModel env cl options))
                                       (snd (applyResponseModel env cl options))]"
proof -
  have "calls (logger (log_creating cl options) st) = calls st"
     "cache (logger (log_creating cl options) st) = cache st"
    by (simp_all add: logger_def)
  then show ?thesis
    using sendRequest_failure [of env "logger (log_creating cl options) st" cl options r retries]
          assms(2,3) attempt_miss [OF assms(1), of env retries]
    by simp
qed

lemma pushed_Suc: "pushed env cl (fst (applyResponseModel env cl options)) k
                     = pushed env cl options (Suc k)"
  using funpow_swap1 [of "\<lambda>o'. fst (applyResponseModel env cl o')" k options]
  by (simp add: pushed_def)


lemma exhaustion:
  assumes fail: "\<forall>i b. \<exists>r. create env i b = Inr r \<and> retryableFailure env rmo r"
  shows "response_model options = rmo \<Longrightarrow>
         (\<forall>k\<le>n. cachedResponse cl (pushed env cl options k) st = None) \<Longrightarrow>
         \<exists>e options' st'. createChatCompletion env cl options (int n) st = (Inl e, options', st')
            \<and> length (calls st') = length (calls st) + n + 1
            \<and> cache st' = cache st
            \<and> ((\<forall>i b. \<exists>r. create env i b = Inr r \<and> emptyResponse r)
                 \<longrightarrow> e = Error ''Invalid or empty response from OpenRouter API'')"
proof (induction n arbitrary: options st)
  case 0
  define b where "b = body cl (fst (applyResponseModel env cl options))
              (snd (applyResponseModel env cl options))"
  from fail obtain r where r: "create env (length (calls st)) b = Inr r"
    "retryableFailure env rmo r"
    by blast
  have nohit: "cachedResponse cl options st = None"
    using "0.prems"(2) [rule_format, of 0] by (simp add: pushed_def)
  from attempt_failure [OF nohit r(1) [unfolded b_def], of 0] r(2) "0.prems"(1)
  obtain e st' where a: "attempt env cl options 0 st =
       (Finished (Inl e), fst (applyResponseModel env cl options), st')"
    "emptyResponse r \<longrightarrow> e = Error ''Invalid or empty response from OpenRouter API''"
    "cache st' = cache st" "calls st' = calls st @ [b]"
    by (auto simp: b_def)
  have "createChatCompletion env cl options (int 0) st =
          (Inl e, fst (applyResponseModel env cl options), st')"
    using createChatCompletion_Finished [OF a(1)] by simp
  moreover have "(\<forall>i b. \<exists>r. create env i b = Inr r \<and> emptyResponse r)
                   \<longrightarrow> e = Error ''Invalid or empty response from OpenRouter API''"
    using a(2) r(1) by (metis sum.inject(2))
  ultimately show ?case
    using a(3,4) by simp
next
  case (Suc n)
  define b where "b = body cl (fst (applyResponseModel env cl options))
              (snd (applyResponseModel env cl options))"
  define options1 where "options1 = fst (applyResponseModel env cl options)"
  from fail obtain r where r: "create env (length (calls st)) b = Inr r"
    "retryableFailure env rmo r"
    by blast
  have nohit: "cachedResponse cl options st = None"
    using Suc.prems(2) [rule_format, of 0] by (simp add: pushed_def)
  from attempt_failure [OF nohit r(1) [unfolded b_def], of "int (Suc n)"] r(2) Suc.prems(1)
  obtain e1 st1 where a: "attempt env cl options (int (Suc n)) st = (Again, options1, st1)"
    "cache st1 = cache st" "calls st1 = calls st @ [b]"
    by (auto simp: b_def options1_def)
  have step: "createChatCompletion env cl options (int (Suc n)) st =
          createChatCompletion env cl options1 (int n) st1"
    using createChatCompletion_Again [OF a(1)] by simp
  have rm1: "response_model options1 = rmo"
    using Suc.prems(1) by (simp add: options1_def)
  have nohit1: "\<forall>k\<le>n. cachedResponse cl (pushed env cl options1 k) st1 = None"
  proof (intro allI impI)
    fix k
    assume "k \<le> n"
    then have "cachedResponse cl (pushed env cl options (Suc k)) st = None"
      using Suc.prems(2) by simp
    then show "cachedResponse cl (pushed env cl options1 k) st1 = None"
      unfolding options1_def pushed_Suc cachedResponse_cache [OF a(2)] .
  qed
  from Suc.IH [OF rm1 nohit1] step a(2,3) show ?case
    by auto
qed

lemma example_first_run:
  "\<exists>st1. createChatCompletion (example_env (\<lambda>n b. Inr (example_response (Some ''1''))))
            (example_client gemini_model True) (example_options ''z.number()'' ''abc'') 3
            (example_state Map.empty)
          = (Inr (Parsed (JNum 1)),
             grown (example_options ''z.number()'' ''abc'')
               (schemaInstruction (example_env failing_remote)
                  \<lparr>name = ''count'', schema = ''z.number()''\<rparr>) 1,
             st1)
        \<and> cache st1 =
            [cacheOptions (example_client gemini_model True)
               (grown (example_options ''z.number()'' ''abc'')
                  (schemaInstruction (example_env failing_remote)
                     \<lparr>name = ''count'', schema = ''z.number()''\<rparr>) 1)
             \<mapsto> Parsed (JNum 1)]
        \<and> length (calls st1) = 1"
proof -
  let ?env = "example_env (\<lambda>n b. Inr (example_response (Some ''1'')))"
  let ?cl = "example_client gemini_model True"
  let ?o = "example_options ''z.number()'' ''abc''"
  let ?o1 = "grown ?o (schemaInstruction (example_env failing_remote)
                         \<lparr>name = ''count'', schema = ''z.number()''\<rparr>) 1"
  have "\<exists>st1. attempt ?env ?cl ?o 3 (example_state Map.empty)
                = (Finished (Inr (Parsed (JNum 1))), ?o1, st1)
          \<and> cache st1 = [cacheOptions ?cl ?o1 \<mapsto> Parsed (JNum 1)]
          \<and> length (calls st1) = 1"
    by (simp add: attempt_def sendRequest_def handleResponse_def tryBlock_def Let_def
          cachedResponse_def LLMCache_get_def LLMCache_set_def cacheOptions_def example_env_def
          example_client_def example_options_def example_state_def applyResponseModel_def
          example_response_def firstMessage_def logger_def cleanedContent_def
          stripOpeningFence_def matchesClosingFence_def trim_def isWhiteSpace_def
          example_JSON_parse_def example_zod_parse_def validateZodSchema_def try_catch_def
          cacheStore_def gemini_model_def grown_def schemaInstruction_def)
  then obtain st1 where
    a: "attempt ?env ?cl ?o 3 (example_state Map.empty)
          = (Finished (Inr (Parsed (JNum 1))), ?o1, st1)"
    and c: "cache st1 = [cacheOptions ?cl ?o1 \<mapsto> Parsed (JNum 1)]" "length (calls st1) = 1"
    by blast
  show ?thesis
    using createChatCompletion_Finished [OF a] c by simp
qed

text \<open>
  C1 as stated fails when an attempt is answered from the cache. A first call with caching
  on (model \<open>google/gemini...\<close>, schema \<open>z.number()\<close>, the provider answers \<open>1\<close>) returns \<open>1\<close>
  and stores it. A second call for the same request, with budget 3 and a provider whose
  every response is empty, misses the cache in its first pass, makes one remote call, and
  is answered from the cache in its second pass: it returns \<open>1\<close> after one remote call,
  where the claim has four remote calls and a failure.
\<close>

theorem retry_exhaustion_counterexample:
  "emptyResponse empty_response
   \<and> cachedResponse (example_client gemini_model True) (example_options ''z.number()'' ''abc'')
       (snd (snd (createChatCompletion (example_env (\<lambda>n b. Inr (example_response (Some ''1''))))
          (example_client gemini_model True) (example_options ''z.number()'' ''abc'') 3
          (example_state Map.empty)))) = None
   \<and> fst (createChatCompletion (example_env (\<lambda>n b. Inr empty_response))
      (example_client gemini_model True) (example_options ''z.number()'' ''abc'') 3
      (snd (snd (createChatCompletion (example_env (\<lambda>n b. Inr (example_response (Some ''1''))))
          (example_client gemini_model True) (example_options ''z.number()'' ''abc'') 3
          (example_state Map.empty)))))
       = Inr (Parsed (JNum 1))
   \<and> length (calls (snd (snd (createChatCompletion (example_env (\<lambda>n b. Inr empty_response))
      (example_client gemini_model True) (example_options ''z.number()'' ''abc'') 3
      (snd (snd (createChatCompletion (example_env (\<lambda>n b. Inr (example_response (Some ''1''))))
          (example_client gemini_model True) (example_options ''z.number()'' ''abc'') 3
          (example_state Map.empty))))))))
       = length (calls (snd (snd (createChatCompletion (example_env (\<lambda>n b. Inr (example_response (Some ''1''))))
          (example_client gemini_model True) (example_options ''z.number()'' ''abc'') 3
          (example_state Map.empty))))) + 1"
proof -
  let ?env1 = "example_env (\<lambda>n b. Inr (example_response (Some ''1'')))"
  let ?env2 = "example_env (\<lambda>n b. Inr empty_response)"
  let ?cl = "example_client gemini_model True"
  let ?o = "example_options ''z.number()'' ''abc''"
  let ?o1 = "grown ?o (schemaInstruction (example_env failing_remote)
                         \<lparr>name = ''count'', schema = ''z.number()''\<rparr>) 1"
  from example_first_run obtain st1 where
    run1: "createChatCompletion ?env1 ?cl ?o 3 (example_state Map.empty)
             = (Inr (Parsed (JNum 1)), ?o1, st1)"
    and c1: "cache st1 = [cacheOptions ?cl ?o1 \<mapsto> Parsed (JNum 1)]"
    by blast
  note defs = attempt_def sendRequest_def handleResponse_def Let_def
    cachedResponse_def LLMCache_get_def cacheOptions_def example_env_def
    example_client_def example_options_def applyResponseModel_def
    empty_response_def firstMessage_def logger_def gemini_model_def grown_def
    schemaInstruction_def
  have miss: "cachedResponse ?cl ?o st1 = None"
    by (simp add: defs c1)
  have "\<exists>st2. attempt ?env2 ?cl ?o 3 st1 = (Again, ?o1, st2)
          \<and> cache st2 = cache st1 \<and> length (calls st2) = length (calls st1) + 1"
    by (simp add: defs c1)
  then obtain st2 where a1: "attempt ?env2 ?cl ?o 3 st1 = (Again, ?o1, st2)"
    and c2: "cache st2 = cache st1" "length (calls st2) = length (calls st1) + 1"
    by blast
  have "cachedResponse ?cl ?o1 st2 = Some (Parsed (JNum 1))"
    by (simp add: cachedResponse_def LLMCache_get_def c2 c1 example_client_def)
  then have "createChatCompletion ?env2 ?cl ?o1 (3 - 1) st2 =
          (Inr (Parsed (JNum 1)), ?o1,
           st2\<lparr>logs := logs st2 @ [log_creating ?cl ?o1, log_cache_hit ?o1 (Parsed (JNum 1))]\<rparr>)"
    by (rule createChatCompletion_hit)
  then have run2: "createChatCompletion ?env2 ?cl ?o 3 st1 =
          (Inr (Parsed (JNum 1)), ?o1,
           st2\<lparr>logs := logs st2 @ [log_creating ?cl ?o1, log_cache_hit ?o1 (Parsed (JNum 1))]\<rparr>)"
    using createChatCompletion_Again [OF a1] by simp
  have "emptyResponse empty_response"
    by (simp add: emptyResponse_def firstMessage_def empty_response_def)
  then show ?thesis
    using run1 run2 miss c2 by simp
qed

text \<open>
  C1, amended: when no attempt of the call is answered from the cache (caching is off, or
  each of the \<open>N + 1\<close> lookups of the call misses), if every remote call yields a response
  with no usable first-choice message, then for every budget \<open>N \<ge> 0\<close> the method makes
  exactly \<open>N + 1\<close> remote calls and then fails, with the error "Invalid or empty response
  from OpenRouter API". The same count holds when the responses fail in any mixture of the
  four retried ways (no first-choice message; on the schema path also missing content,
  content that is not JSON, or a value that does not pass the schema): the four kinds draw
  on the one counter.
\<close>

theorem retry_exhaustion:
  assumes "0 \<le> N"
    and "\<forall>k\<le>nat N. cachedResponse cl (pushed env cl options k) st = None"
    and "\<forall>i b. \<exists>r. create env i b = Inr r \<and> retryableFailure env (response_model options) r"
  shows "\<exists>e options' st'.
           createChatCompletion env cl options N st = (Inl e, options', st')
         \<and> length (calls st') = length (calls st) + nat N + 1
         \<and> ((\<forall>i b. \<exists>r. create env i b = Inr r \<and> emptyResponse r)
              \<longrightarrow> e = Error ''Invalid or empty response from OpenRouter API'')"
proof -
  from exhaustion [OF assms(3) refl assms(2)] assms(1)
  show ?thesis
    by auto
qed

theorem retry_exhaustion_witness:
  "(0::int) \<le> 3
   \<and> (\<forall>k. cachedResponse (example_client gemini_model True)
              (pushed (example_env failing_remote) (example_client gemini_model True)
                 (example_options ''z.string()'' ''abc'') k)
              (example_state Map.empty) = None)
   \<and> (\<forall>i b. \<exists>r. create (example_env failing_remote) i b = Inr r
          \<and> retryableFailure (example_env failing_remote)
              (response_model (example_options ''z.string()'' ''abc'')) r)
   \<and> (\<exists>e options' st'.
         createChatCompletion (example_env failing_remote) (example_client gemini_model True)
           (example_options ''z.string()'' ''abc'') 3 (example_state Map.empty)
           = (Inl e, options', st')
         \<and> length (calls st') = 4)"
proof -
  let ?env = "example_env failing_remote"
  let ?cl = "example_client gemini_model True"
  let ?o = "example_options ''z.string()'' ''abc''"
  let ?st = "example_state Map.empty"
  have h1: "(0::int) \<le> 3"
    by simp
  have h2': "\<forall>k. cachedResponse ?cl (pushed ?env ?cl ?o k) ?st = None"
    by (simp add: cachedResponse_def LLMCache_get_def example_state_def)
  then have h2: "\<forall>k\<le>nat 3. cachedResponse ?cl (pushed ?env ?cl ?o k) ?st = None"
    by blast
  have h3: "\<forall>i b. \<exists>r. create ?env i b = Inr r
              \<and> retryableFailure ?env (response_model ?o) r"
    by (simp add: example_env_def failing_remote_def retryableFailure_def emptyResponse_def
          missingContent_def parseFailure_def schemaMismatch_def extractedData_def
          firstMessage_def empty_response_def example_response_def example_options_def
          example_JSON_parse_def example_zod_parse_def cleanedContent_def
          stripOpeningFence_def matchesClosingFence_def trim_def isWhiteSpace_def)
  from retry_exhaustion [OF h1 h2 h3] obtain e options' st' where
    run: "createChatCompletion ?env ?cl ?o 3 ?st = (Inl e, options', st')"
    and len: "length (calls st') = length (calls ?st) + nat 3 + 1"
    by blast
  have "length (calls st') = 4"
    using len by (simp add: example_state_def)
  with run h1 h2' h3 show ?thesis
    by blast
qed

subsection \<open>The requests of a call\<close>

lemma grown_0 [simp]: "grown options m 0 = options"
  by (simp add: grown_def)

lemma grown_grown: "grown (grown options m (Suc 0)) m k = grown options m (Suc k)"
  by (simp add: grown_def replicate_append_same)

lemma map_upt_shift:
  "map f [Suc 0..<Suc (Suc k)] = f (Suc 0) # map (\<lambda>i. f (Suc i)) [Suc 0..<Suc k]"
proof -
  have "[Suc 0..<Suc (Suc k)] = Suc 0 # map Suc [Suc 0..<Suc k]"
    by (simp add: map_Suc_upt upt_conv_Cons del: upt_Suc)
  then show ?thesis
    by (simp add: comp_def del: upt_Suc)
qed

lemma grows:
  assumes gem: "prefix ''google/gemini'' (modelName cl)"
  shows "response_model options = Some rm \<Longrightarrow> n = nat retries \<Longrightarrow>
    \<exists>k. fst (snd (createChatCompletion env cl options retries st))
           = grown options (schemaInstruction env rm) k
       \<and> calls (snd (snd (createChatCompletion env cl options retries st))) =
           calls st @ map (\<lambda>i. body cl (grown options (schemaInstruction env rm) i) None)
                          [1..<Suc k]"
proof (induction n arbitrary: retries options st)
  case 0
  obtain s o1 st1 where a: "attempt env cl options retries st = (s, o1, st1)"
    by (cases "attempt env cl options retries st") auto
  have "s \<noteq> Again"
    using attempt_Again_retries a "0.prems"(2) by fastforce
  then obtain r where s: "s = Finished r"
    by (cases s) auto
  have res: "createChatCompletion env cl options retries st = (r, o1, st1)"
    using createChatCompletion_Finished a s by blast
  from attempt_calls [OF a] show ?case
  proof
    assume "o1 = options \<and> s \<noteq> Again \<and> calls st1 = calls st"
    then show ?thesis
      using res by (intro exI [of _ 0]) simp
  next
    assume "o1 = fst (applyResponseModel env cl options) \<and>
       calls st1 = calls st @ [body cl (fst (applyResponseModel env cl options))
                                 (snd (applyResponseModel env cl options))]"
    then show ?thesis
      using res applyResponseModel_gemini [OF gem "0.prems"(1)]
      by (intro exI [of _ 1]) simp
  qed
next
  case (Suc n)
  define sys where "sys = schemaInstruction env rm"
  obtain s o1 st1 where a: "attempt env cl options retries st = (s, o1, st1)"
    by (cases "attempt env cl options retries st") auto
  show ?case
  proof (cases s)
    case (Finished r)
    have res: "createChatCompletion env cl options retries st = (r, o1, st1)"
      using createChatCompletion_Finished a Finished by blast
    from attempt_calls [OF a] show ?thesis
    proof
      assume "o1 = options \<and> s \<noteq> Again \<and> calls st1 = calls st"
      then show ?thesis
        using res by (intro exI [of _ 0]) simp
    next
      assume "o1 = fst (applyResponseModel env cl options) \<and>
         calls st1 = calls st @ [body cl (fst (applyResponseModel env cl options))
                                   (snd (applyResponseModel env cl options))]"
      then show ?thesis
        using res applyResponseModel_gemini [OF gem Suc.prems(1)]
        by (intro exI [of _ 1]) simp
    qed
  next
    case Again
    with attempt_calls [OF a] applyResponseModel_gemini [OF gem Suc.prems(1), of env]
    have o1: "o1 = grown options sys (Suc 0)"
      and c1: "calls st1 = calls st @ [body cl (grown options sys (Suc 0)) None]"
      by (auto simp: sys_def)
    have step: "createChatCompletion env cl options retries st =
                createChatCompletion env cl o1 (retries - 1) st1"
      using createChatCompletion_Again a Again by blast
    have rm1: "response_model o1 = Some rm"
      using Suc.prems(1) by (simp add: o1 grown_def)
    have n1: "n = nat (retries - 1)"
      using Suc.prems(2) by simp
    from Suc.IH [OF rm1 n1, of st1] obtain k where
      k: "fst (snd (createChatCompletion env cl o1 (retries - 1) st1)) = grown o1 sys k"
         "calls (snd (snd (createChatCompletion env cl o1 (retries - 1) st1))) =
           calls st1 @ map (\<lambda>i. body cl (grown o1 sys i) None) [1..<Suc k]"
      by (auto simp: sys_def)
    have "fst (snd (createChatCompletion env cl options retries st))
            = grown options sys (Suc k)"
      using k(1) step by (simp add: o1 grown_grown)
    moreover have "calls (snd (snd (createChatCompletion env cl options retries st))) =
           calls st @ map (\<lambda>i. body cl (grown options sys i) None) [1..<Suc (Suc k)]"
      using k(2) step c1 by (simp add: o1 grown_grown map_upt_shift del: upt_Suc)
    ultimately show ?thesis
      unfolding sys_def by blast
  qed
qed

lemma stays:
  assumes other: "\<not> prefix ''google/gemini'' (modelName cl)"
  shows "response_model options = Some rm \<Longrightarrow> n = nat retries \<Longrightarrow>
    \<exists>k. fst (snd (createChatCompletion env cl options retries st)) = options
       \<and> calls (snd (snd (createChatCompletion env cl options retries st))) =
           calls st @ replicate k
             (body cl options (Some (ZodResponseFormat (schema rm) (name rm))))"
proof (induction n arbitrary: retries st)
  case 0
  obtain s o1 st1 where a: "attempt env cl options retries st = (s, o1, st1)"
    by (cases "attempt env cl options retries st") auto
  have "s \<noteq> Again"
    using attempt_Again_retries a "0.prems"(2) by fastforce
  then obtain r where s: "s = Finished r"
    by (cases s) auto
  have res: "createChatCompletion env cl options retries st = (r, o1, st1)"
    using createChatCompletion_Finished a s by blast
  from attempt_calls [OF a] show ?case
  proof
    assume "o1 = options \<and> s \<noteq> Again \<and> calls st1 = calls st"
    then show ?thesis
      using res by (intro exI [of _ 0]) simp
  next
    assume "o1 = fst (applyResponseModel env cl options) \<and>
       calls st1 = calls st @ [body cl (fst (applyResponseModel env cl options))
                                 (snd (applyResponseModel env cl options))]"
    then show ?thesis
      using res applyResponseModel_other [OF other "0.prems"(1)]
      by (intro exI [of _ 1]) simp
  qed
next
  case (Suc n)
  define b where "b = body cl options (Some (ZodResponseFormat (schema rm) (name rm)))"
  obtain s o1 st1 where a: "attempt env cl options retries st = (s, o1, st1)"
    by (cases "attempt env cl options retries st") auto
  show ?case
  proof (cases s)
    case (Finished r)
    have res: "createChatCompletion env cl options retries st = (r, o1, st1)"
      using createChatCompletion_Finished a Finished by blast
    from attempt_calls [OF a] show ?thesis
    proof
      assume "o1 = options \<and> s \<noteq> Again \<and> calls st1 = calls st"
      then show ?thesis
        using res by (intro exI [of _ 0]) simp
    next
      assume "o1 = fst (applyResponseModel env cl options) \<and>
         calls st1 = calls st @ [body cl (fst (applyResponseModel env cl options))
                                   (snd (applyResponseModel env cl options))]"
      then show ?thesis
        using res applyResponseModel_other [OF other Suc.prems(1)]
        by (intro exI [of _ 1]) simp
    qed
  next
    case Again
    with attempt_calls [OF a] applyResponseModel_other [OF other Suc.prems(1), of env]
    have o1: "o1 = options"
      and c1: "calls st1 = calls st @ [b]"
      by (auto simp: b_def)
    have step: "createChatCompletion env cl options retries st =
                createChatCompletion env cl options (retries - 1) st1"
      using createChatCompletion_Again a Again o1 by blast
    have n1: "n = nat (retries - 1)"
      using Suc.prems(2) by simp
    from Suc.IH [OF Suc.prems(1) n1, of st1] obtain k where
      k: "fst (snd (createChatCompletion env cl options (retries - 1) st1)) = options"
         "calls (snd (snd (createChatCompletion env cl options (retries - 1) st1))) =
           calls st1 @ replicate k b"
      by (auto simp: b_def)
    have "calls (snd (snd (createChatCompletion env cl options retries st))) =
           calls st @ replicate (Suc k) b"
      using k(2) step c1 by simp
    then show ?thesis
      using k(1) step unfolding b_def by (intro exI [of _ "Suc k"]) simp
  qed
qed

lemma schemaInstruction_text:
  "schemaInstruction env rm =
     \<lparr>role = System,
      content = Str (''Please format your response according to this schema:'' @ [CHR 0x0A]
                     @ JSON_stringify env (schema rm) @ [CHR 0x0A, CHR 0x0A]
                     @ ''Respond with only the JSON object, no additional text or formatting.'')\<rparr>"
  by (simp only: schemaInstruction_def)

lemma formattedMessages_pushed:
  "formattedMessages (ms @ replicate k \<lparr>role = System, content = Str t\<rparr>) =
     map formattedMessage ms @ replicate k \<lparr>wire_role = User, wire_content = WStr t\<rparr>"
  by (simp add: formattedMessages_def formattedMessage_def)

subsection \<open>Schema mismatch at budget zero\<close>

text \<open>
  C3 at a failing input: budget 0, schema \<open>z.string()\<close>, and the provider answers with the
  content \<open>0\<close>, which is JSON and does not pass the schema. The \<open>throw\<close> of line 344 is
  inside the \<open>try\<close> block, so the \<open>catch\<close> of line 352 receives it: the method logs the
  event "Failed to parse response" and fails with "Failed to parse response: Response does
  not match the required schema". With the content \<open>oops\<close>, which is not JSON, the same log
  event is emitted and the error has the same prefix.
\<close>

theorem schema_mismatch_at_budget_zero:
  "schemaMismatch (example_env (\<lambda>n b. Inr (example_response (Some ''0''))))
     \<lparr>name = ''count'', schema = ''z.string()''\<rparr> (example_response (Some ''0''))
   \<and> fst (createChatCompletion (example_env (\<lambda>n b. Inr (example_response (Some ''0''))))
          (example_client gemini_model False) (example_options ''z.string()'' ''abc'') 0
          (example_state Map.empty))
       = Inl (Error ''Failed to parse response: Response does not match the required schema'')
   \<and> last (logs (snd (snd (createChatCompletion
          (example_env (\<lambda>n b. Inr (example_response (Some ''0''))))
          (example_client gemini_model False) (example_options ''z.string()'' ''abc'') 0
          (example_state Map.empty)))))
       = \<lparr>category = ''openrouter'', log_message = ''Failed to parse response'', level = 0,
          auxiliary = [(''error'', StringAux ''Response does not match the required schema''),
                       (''content'', StringAux ''0'')]\<rparr>
   \<and> parseFailure (example_env (\<lambda>n b. Inr (example_response (Some ''oops''))))
         (example_response (Some ''oops''))
   \<and> fst (createChatCompletion (example_env (\<lambda>n b. Inr (example_response (Some ''oops''))))
          (example_client gemini_model False) (example_options ''z.string()'' ''abc'') 0
          (example_state Map.empty))
       = Inl (Error ''Failed to parse response: Unexpected token'')
   \<and> last (logs (snd (snd (createChatCompletion
          (example_env (\<lambda>n b. Inr (example_response (Some ''oops''))))
          (example_client gemini_model False) (example_options ''z.string()'' ''abc'') 0
          (example_state Map.empty)))))
       = \<lparr>category = ''openrouter'', log_message = ''Failed to parse response'', level = 0,
          auxiliary = [(''error'', StringAux ''Unexpected token''),
                       (''content'', StringAux ''oops'')]\<rparr>"
proof -
  let ?cl = "example_client gemini_model False"
  let ?o = "example_options ''z.string()'' ''abc''"
  let ?st = "example_state Map.empty"
  let ?env0 = "example_env (\<lambda>n b. Inr (example_response (Some ''0'')))"
  let ?env1 = "example_env (\<lambda>n b. Inr (example_response (Some ''oops'')))"
  note defs = attempt_def sendRequest_def handleResponse_def tryBlock_def Let_def
    cachedResponse_def example_env_def example_client_def example_options_def
    example_state_def applyResponseModel_def example_response_def firstMessage_def logger_def
    cleanedContent_def stripOpeningFence_def matchesClosingFence_def trim_def isWhiteSpace_def
    example_JSON_parse_def example_zod_parse_def validateZodSchema_def try_catch_def
    log_failed_to_parse_def gemini_model_def
  have "\<exists>o' st'. attempt ?env0 ?cl ?o 0 ?st =
          (Finished (Inl (Error
             ''Failed to parse response: Response does not match the required schema'')),
           o', st')
        \<and> last (logs st') =
            \<lparr>category = ''openrouter'', log_message = ''Failed to parse response'', level = 0,
             auxiliary = [(''error'', StringAux ''Response does not match the required schema''),
                          (''content'', StringAux ''0'')]\<rparr>"
    by (simp add: defs)
  then obtain o0 st0 where a0: "attempt ?env0 ?cl ?o 0 ?st =
          (Finished (Inl (Error
             ''Failed to parse response: Response does not match the required schema'')),
           o0, st0)"
    and l0: "last (logs st0) =
            \<lparr>category = ''openrouter'', log_message = ''Failed to parse response'', level = 0,
             auxiliary = [(''error'', StringAux ''Response does not match the required schema''),
                          (''content'', StringAux ''0'')]\<rparr>"
    by blast
  have "\<exists>o' st'. attempt ?env1 ?cl ?o 0 ?st =
          (Finished (Inl (Error ''Failed to parse response: Unexpected token'')), o', st')
        \<and> last (logs st') =
            \<lparr>category = ''openrouter'', log_message = ''Failed to parse response'', level = 0,
             auxiliary = [(''error'', StringAux ''Unexpected token''),
                          (''content'', StringAux ''oops'')]\<rparr>"
    by (simp add: defs)
  then obtain o1 st1 where a1: "attempt ?env1 ?cl ?o 0 ?st =
          (Finished (Inl (Error ''Failed to parse response: Unexpected token'')), o1, st1)"
    and l1: "last (logs st1) =
            \<lparr>category = ''openrouter'', log_message = ''Failed to parse response'', level = 0,
             auxiliary = [(''error'', StringAux ''Unexpected token''),
                          (''content'', StringAux ''oops'')]\<rparr>"
    by blast
  have k0: "schemaMismatch ?env0 \<lparr>name = ''count'', schema = ''z.string()''\<rparr>
              (example_response (Some ''0''))"
    by (simp add: schemaMismatch_def extractedData_def defs)
  have k1: "parseFailure ?env1 (example_response (Some ''oops''))"
    by (simp add: parseFailure_def extractedData_def defs)
  show ?thesis
    using createChatCompletion_Finished [OF a0] createChatCompletion_Finished [OF a1]
          l0 l1 k0 k1
    by simp
qed

subsection \<open>The schema step\<close>

text \<open>
  C4 as stated fails when the call is answered from the cache. A first call (model
  \<open>google/gemini...\<close>, schema \<open>z.number()\<close>, caching on) returns \<open>1\<close> and stores it. A
  second call with the options object as the first call left it carries the output-schema
  descriptor and is answered from the cache: no turn is appended to its messages and no
  request is sent.
\<close>

theorem schema_step_counterexample:
  "response_model (fst (snd (createChatCompletion (example_env (\<lambda>n b. Inr (example_response (Some ''1''))))
         (example_client gemini_model True) (example_options ''z.number()'' ''abc'') 3
         (example_state Map.empty)))) = Some \<lparr>name = ''count'', schema = ''z.number()''\<rparr>
   \<and> prefix ''google/gemini'' (modelName (example_client gemini_model True))
   \<and> fst (createChatCompletion (example_env failing_remote)
      (example_client gemini_model True)
      (fst (snd (createChatCompletion (example_env (\<lambda>n b. Inr (example_response (Some ''1''))))
         (example_client gemini_model True) (example_options ''z.number()'' ''abc'') 3
         (example_state Map.empty)))) 3
      (snd (snd (createChatCompletion (example_env (\<lambda>n b. Inr (example_response (Some ''1''))))
         (example_client gemini_model True) (example_options ''z.number()'' ''abc'') 3
         (example_state Map.empty))))) = Inr (Parsed (JNum 1))
   \<and> messages (fst (snd (createChatCompletion (example_env failing_remote)
      (example_client gemini_model True)
      (fst (snd (createChatCompletion (example_env (\<lambda>n b. Inr (example_response (Some ''1''))))
         (example_client gemini_model True) (example_options ''z.number()'' ''abc'') 3
         (example_state Map.empty)))) 3
      (snd (snd (createChatCompletion (example_env (\<lambda>n b. Inr (example_response (Some ''1''))))
         (example_client gemini_model True) (example_options ''z.number()'' ''abc'') 3
         (example_state Map.empty))))))) = messages (fst (snd (createChatCompletion (example_env (\<lambda>n b. Inr (example_response (Some ''1''))))
         (example_client gemini_model True) (example_options ''z.number()'' ''abc'') 3
         (example_state Map.empty))))
   \<and> calls (snd (snd (createChatCompletion (example_env failing_remote)
      (example_client gemini_model True)
      (fst (snd (createChatCompletion (example_env (\<lambda>n b. Inr (example_response (Some ''1''))))
         (example_client gemini_model True) (example_options ''z.number()'' ''abc'') 3
         (example_state Map.empty)))) 3
      (snd (snd (createChatCompletion (example_env (\<lambda>n b. Inr (example_response (Some ''1''))))
         (example_client gemini_model True) (example_options ''z.number()'' ''abc'') 3
         (example_state Map.empty))))))) = calls (snd (snd (createChatCompletion (example_env (\<lambda>n b. Inr (example_response (Some ''1''))))
         (example_client gemini_model True) (example_options ''z.number()'' ''abc'') 3
         (example_state Map.empty))))"
proof -
  let ?env1 = "example_env (\<lambda>n b. Inr (example_response (Some ''1'')))"
  let ?cl = "example_client gemini_model True"
  let ?o = "example_options ''z.number()'' ''abc''"
  let ?o1 = "grown ?o (schemaInstruction (example_env failing_remote)
                         \<lparr>name = ''count'', schema = ''z.number()''\<rparr>) 1"
  from example_first_run obtain st1 where
    run1: "createChatCompletion ?env1 ?cl ?o 3 (example_state Map.empty)
             = (Inr (Parsed (JNum 1)), ?o1, st1)"
    and c1: "cache st1 = [cacheOptions ?cl ?o1 \<mapsto> Parsed (JNum 1)]"
    by blast
  have "cachedResponse ?cl ?o1 st1 = Some (Parsed (JNum 1))"
    by (simp add: cachedResponse_def LLMCache_get_def c1 example_client_def)
  then have run2: "createChatCompletion (example_env failing_remote) ?cl ?o1 3 st1 =
          (Inr (Parsed (JNum 1)), ?o1,
           st1\<lparr>logs := logs st1 @ [log_creating ?cl ?o1, log_cache_hit ?o1 (Parsed (JNum 1))]\<rparr>)"
    by (rule createChatCompletion_hit)
  have "response_model ?o1 = Some \<lparr>name = ''count'', schema = ''z.number()''\<rparr>"
    by (simp add: grown_def example_options_def)
  moreover have "prefix ''google/gemini'' (modelName ?cl)"
    by (simp add: example_client_def gemini_model_def)
  ultimately show ?thesis
    using run1 run2 by simp
qed

text \<open>
  C4, amended: a request with an output-schema descriptor, in a pass of the method that is
  not answered from the cache. When the model name starts with \<open>google/gemini\<close>, the pass
  appends to the messages of the options a system turn whose content is "Please format
  your response according to this schema:", a line feed, the schema as JSON, two line
  feeds and "Respond with only the JSON object, no additional text or formatting."; it
  sends one request, which carries the formatted conversation followed by that text (as a
  plain string it goes out in a user turn) and no response format; and no request of the
  call carries a response format. For every other model name the call leaves the options
  as they are, the pass sends one request, and every request of the call carries the
  formatted, unchanged conversation and the response format built from the schema and
  its name.
\<close>

theorem schema_step:
  assumes "response_model options = Some rm"
    and "cachedResponse cl options st = None"
  shows "let t = ''Please format your response according to this schema:'' @ [CHR 0x0A]
           @ JSON_stringify env (schema rm) @ [CHR 0x0A, CHR 0x0A]
           @ ''Respond with only the JSON object, no additional text or formatting.''
         in (if prefix ''google/gemini'' (modelName cl) then
            fst (snd (attempt env cl options retries st)) =
              options\<lparr>messages := messages options @ [\<lparr>role = System, content = Str t\<rparr>]\<rparr>
            \<and> (\<exists>b. calls (snd (snd (attempt env cl options retries st))) = calls st @ [b]
                 \<and> body_response_format b = None
                 \<and> body_messages b =
                     map formattedMessage (messages options)
                     @ [\<lparr>wire_role = User, wire_content = WStr t\<rparr>])
            \<and> (\<forall>b \<in> set (drop (length (calls st))
                    (calls (snd (snd (createChatCompletion env cl options retries st))))).
                  body_response_format b = None)
          else
            fst (snd (attempt env cl options retries st)) = options
            \<and> (\<exists>b. calls (snd (snd (attempt env cl options retries st))) = calls st @ [b]
                 \<and> body_response_format b = Some (ZodResponseFormat (schema rm) (name rm))
                 \<and> body_messages b = map formattedMessage (messages options))
            \<and> fst (snd (createChatCompletion env cl options retries st)) = options
            \<and> (\<forall>b \<in> set (drop (length (calls st))
                    (calls (snd (snd (createChatCompletion env cl options retries st))))).
                  body_response_format b = Some (ZodResponseFormat (schema rm) (name rm))
                  \<and> body_messages b = map formattedMessage (messages options)))"
proof -
  define t where
    "t = ''Please format your response according to this schema:'' @ [CHR 0x0A]
           @ JSON_stringify env (schema rm) @ [CHR 0x0A, CHR 0x0A]
           @ ''Respond with only the JSON object, no additional text or formatting.''"
  have si: "schemaInstruction env rm = \<lparr>role = System, content = Str t\<rparr>"
    unfolding t_def by (rule schemaInstruction_text)
  obtain s o1 st1 where a: "attempt env cl options retries st = (s, o1, st1)"
    by (cases "attempt env cl options retries st") auto
  then have sr: "sendRequest env cl options retries (logger (log_creating cl options) st)
                   = (s, o1, st1)"
    using attempt_miss [OF assms(2), of env retries] by simp
  have c: "calls (logger (log_creating cl options) st) = calls st"
    by (simp add: logger_def)
  note sc = sendRequest_calls [OF sr, unfolded c]
  show ?thesis
  proof (cases "prefix ''google/gemini'' (modelName cl)")
    case True
    have all: "\<forall>b \<in> set (drop (length (calls st))
                    (calls (snd (snd (createChatCompletion env cl options retries st))))).
                  body_response_format b = None"
      using grows [OF True assms(1) refl, of env retries st] by auto
    have o1: "o1 = options\<lparr>messages := messages options @ [\<lparr>role = System, content = Str t\<rparr>]\<rparr>"
      and b1: "calls st1 = calls st @ [body cl o1 None]"
      using sc applyResponseModel_gemini [OF True assms(1), of env]
      by (simp_all add: grown_def si)
    have "body_messages (body cl o1 None) =
            formattedMessages (messages options @ replicate 1 \<lparr>role = System, content = Str t\<rparr>)"
      by (simp add: o1)
    then have m1: "body_messages (body cl o1 None) =
            map formattedMessage (messages options)
            @ [\<lparr>wire_role = User, wire_content = WStr t\<rparr>]"
      unfolding formattedMessages_pushed by simp
    show ?thesis
      unfolding Let_def t_def [symmetric]
      using True a all o1 b1 m1 by simp
  next
    case False
    have "fst (snd (createChatCompletion env cl options retries st)) = options
       \<and> (\<forall>b \<in> set (drop (length (calls st))
                    (calls (snd (snd (createChatCompletion env cl options retries st))))).
                  body_response_format b = Some (ZodResponseFormat (schema rm) (name rm))
                  \<and> body_messages b = map formattedMessage (messages options))"
      using stays [OF False assms(1) refl, of env retries st]
      by (auto simp: formattedMessages_def)
    then show ?thesis
      unfolding Let_def t_def [symmetric]
      using False sc a applyResponseModel_other [OF False assms(1), of env]
      by (simp add: formattedMessages_def)
  qed
qed

theorem schema_step_witness:
  "response_model (example_options ''z.number()'' ''abc'')
     = Some \<lparr>name = ''count'', schema = ''z.number()''\<rparr>
   \<and> cachedResponse (example_client gemini_model False)
        (example_options ''z.number()'' ''abc'') (example_state Map.empty) = None
   \<and> cachedResponse (example_client other_model False)
        (example_options ''z.number()'' ''abc'') (example_state Map.empty) = None
   \<and> prefix ''google/gemini'' (modelName (example_client gemini_model False))
   \<and> \<not> prefix ''google/gemini'' (modelName (example_client other_model False))
   \<and> messages (fst (snd (attempt (example_env failing_remote)
        (example_client gemini_model False) (example_options ''z.number()'' ''abc'') 3
        (example_state Map.empty))))
     = [\<lparr>role = User, content = Str ''how many''\<rparr>,
        \<lparr>role = System,
         content = Str (''Please format your response according to this schema:''
                        @ [CHR 0x0A] @ ''z.number()'' @ [CHR 0x0A, CHR 0x0A]
                        @ ''Respond with only the JSON object, no additional text or formatting.'')\<rparr>]
   \<and> map body_messages (calls (snd (snd (attempt (example_env failing_remote)
        (example_client gemini_model False) (example_options ''z.number()'' ''abc'') 3
        (example_state Map.empty)))))
     = [[\<lparr>wire_role = User, wire_content = WStr ''how many''\<rparr>,
         \<lparr>wire_role = User,
          wire_content = WStr (''Please format your response according to this schema:''
                        @ [CHR 0x0A] @ ''z.number()'' @ [CHR 0x0A, CHR 0x0A]
                        @ ''Respond with only the JSON object, no additional text or formatting.'')\<rparr>]]
   \<and> map body_response_format (calls (snd (snd (attempt (example_env failing_remote)
        (example_client gemini_model False) (example_options ''z.number()'' ''abc'') 3
        (example_state Map.empty)))))
     = [None]
   \<and> fst (snd (attempt (example_env failing_remote)
        (example_client other_model False) (example_options ''z.number()'' ''abc'') 3
        (example_state Map.empty)))
     = example_options ''z.number()'' ''abc''
   \<and> map body_messages (calls (snd (snd (attempt (example_env failing_remote)
        (example_client other_model False) (example_options ''z.number()'' ''abc'') 3
        (example_state Map.empty)))))
     = [[\<lparr>wire_role = User, wire_content = WStr ''how many''\<rparr>]]
   \<and> map body_response_format (calls (snd (snd (attempt (example_env failing_remote)
        (example_client other_model False) (example_options ''z.number()'' ''abc'') 3
        (example_state Map.empty)))))
     = [Some (ZodResponseFormat ''z.number()'' ''count'')]"
proof -
  let ?env = "example_env failing_remote"
  let ?g = "example_client gemini_model False"
  let ?m = "example_client other_model False"
  let ?o = "example_options ''z.number()'' ''abc''"
  let ?st = "example_state Map.empty"
  have h1: "response_model ?o = Some \<lparr>name = ''count'', schema = ''z.number()''\<rparr>"
    by (simp add: example_options_def)
  have h2: "cachedResponse ?g ?o ?st = None" "cachedResponse ?m ?o ?st = None"
    by (simp_all add: cachedResponse_def example_client_def)
  have h3: "prefix ''google/gemini'' (modelName ?g)"
    "\<not> prefix ''google/gemini'' (modelName ?m)"
    by (simp_all add: example_client_def gemini_model_def other_model_def)
  have st: "calls ?st = []"
    by (simp add: example_state_def)
  have js: "JSON_stringify ?env ''z.number()'' = ''z.number()''"
    by (simp add: example_env_def)
  have fm: "map formattedMessage (messages ?o)
              = [\<lparr>wire_role = User, wire_content = WStr ''how many''\<rparr>]"
    by (simp add: example_options_def formattedMessage_def)
  from schema_step [OF h1 h2(1), of ?env 3, unfolded Let_def]
       schema_step [OF h1 h2(2), of ?env 3, unfolded Let_def] h3
  have "messages (fst (snd (attempt ?env ?g ?o 3 ?st)))
          = [\<lparr>role = User, content = Str ''how many''\<rparr>,
        \<lparr>role = System,
         content = Str (''Please format your response according to this schema:''
                        @ [CHR 0x0A] @ ''z.number()'' @ [CHR 0x0A, CHR 0x0A]
                        @ ''Respond with only the JSON object, no additional text or formatting.'')\<rparr>]"
    and "map body_messages (calls (snd (snd (attempt ?env ?g ?o 3 ?st))))
     = [[\<lparr>wire_role = User, wire_content = WStr ''how many''\<rparr>,
         \<lparr>wire_role = User,
          wire_content = WStr (''Please format your response according to this schema:''
                        @ [CHR 0x0A] @ ''z.number()'' @ [CHR 0x0A, CHR 0x0A]
                        @ ''Respond with only the JSON object, no additional text or formatting.'')\<rparr>]]"
    and "map body_response_format (calls (snd (snd (attempt ?env ?g ?o 3 ?st)))) = [None]"
    and "fst (snd (attempt ?env ?m ?o 3 ?st)) = ?o"
    and "map body_messages (calls (snd (snd (attempt ?env ?m ?o 3 ?st))))
          = [[\<lparr>wire_role = User, wire_content = WStr ''how many''\<rparr>]]"
    and "map body_response_format (calls (snd (snd (attempt ?env ?m ?o 3 ?st))))
          = [Some (ZodResponseFormat ''z.number()'' ''count'')]"
    by (auto simp: st js fm) (simp_all add: example_options_def)
  with h1 h2 h3 show ?thesis
    by simp
qed

subsection \<open>The conversation grows with every request\<close>



end
